theory Spec2Isabelle
  imports Main
begin

section \<open>Values handled by the script\<close>

text \<open>
  A decoded JSON document, as Python holds it after \<open>resp.json()\<close> and as it is passed
  to the \<open>json=\<close> argument of a request. A dict is an association list in insertion
  order, looked up with \<open>map_of\<close>. A float is carried only (never computed with) and is
  identified by its repr.
\<close>

datatype json =
    JNull
  | JBool bool
  | JInt int
  | JFloat string
  | JStr string
  | JList "json list"
  | JDict "(string \<times> json) list"

text \<open>
  The exceptions of class \<open>Exception\<close> that the calls of the script can raise, and
  \<open>SystemExit\<close>, which \<open>sys.exit\<close> raises and which is not an \<open>Exception\<close>.
\<close>

datatype pyerr =
    RequestException string
  | JSONDecodeError
  | KeyError string
  | TypeError

datatype exc = SystemExit int | Error pyerr

text \<open>\<open>j[k]\<close> for a string key: only a dict holding the key answers.\<close>

fun getitem :: "json \<Rightarrow> string \<Rightarrow> pyerr + json" where
  "getitem (JDict kvs) k = (case map_of kvs k of None \<Rightarrow> Inl (KeyError k) | Some v \<Rightarrow> Inr v)"
| "getitem _ k = Inl TypeError"

datatype http_method = POST | PUT | DELETE

text \<open>
  One call of \<open>requests.post / put / delete\<close> with the keyword arguments the script
  uses; an absent keyword is \<open>None\<close>.
\<close>

record request =
  http_method :: http_method
  url :: string
  json_kw :: "json option"
  headers_kw :: "(string \<times> string) list option"
  verify_kw :: bool

text \<open>
  What the script reads of a response: \<open>resp.status_code\<close>, \<open>resp.text\<close> and
  \<open>resp.json()\<close> (\<open>None\<close> when the content does not decode, where the call raises).
\<close>

record response =
  status_code :: int
  resp_text :: string
  resp_json :: "json option"

datatype reply = Raised pyerr | Response response

text \<open>The observable effects of a run, in order.\<close>

datatype event =
    Disable_warnings
  | Print string
  | Http request reply
  | Sleep nat

text \<open>
  What the script runs against: the server (any state, any answer to any request),
  and Python's \<open>str()\<close> of a decoded JSON value and of an exception, as f-string
  interpolation applies it.
\<close>

record 's runtime =
  send :: "'s \<Rightarrow> request \<Rightarrow> reply \<times> 's"
  str_json :: "json \<Rightarrow> string"
  str_exc :: "pyerr \<Rightarrow> string"

record 's world =
  server :: 's
  trace :: "event list"

section \<open>Statements: state passing with exceptions\<close>

type_synonym ('s, 'a) script = "'s world \<Rightarrow> (exc + 'a) \<times> 's world"

definition ret :: "'a \<Rightarrow> ('s, 'a) script" where
  "ret x = (\<lambda>w. (Inr x, w))"

definition raise :: "exc \<Rightarrow> ('s, 'a) script" where
  "raise e = (\<lambda>w. (Inl e, w))"

definition bnd :: "('s, 'a) script \<Rightarrow> ('a \<Rightarrow> ('s, 'b) script) \<Rightarrow> ('s, 'b) script" where
  "bnd m f = (\<lambda>w. case m w of (Inl e, w') \<Rightarrow> (Inl e, w') | (Inr x, w') \<Rightarrow> f x w')"

text \<open>\<open>try: m except Exception as e: h e\<close>; a \<open>SystemExit\<close> passes through.\<close>

definition try_except :: "('s, 'a) script \<Rightarrow> (pyerr \<Rightarrow> ('s, 'a) script) \<Rightarrow> ('s, 'a) script" where
  "try_except m h = (\<lambda>w. case m w of (Inl (Error e), w') \<Rightarrow> h e w' | r \<Rightarrow> r)"

definition emit :: "event \<Rightarrow> ('s, unit) script" where
  "emit e = (\<lambda>w. (Inr (), w\<lparr>trace := trace w @ [e]\<rparr>))"

definition print :: "string \<Rightarrow> ('s, unit) script" where
  "print line = emit (Print line)"

definition sleep :: "nat \<Rightarrow> ('s, unit) script" where
  "sleep secs = emit (Sleep secs)"

definition sys_exit :: "int \<Rightarrow> ('s, 'a) script" where
  "sys_exit code = raise (SystemExit code)"

definition request :: "'s runtime \<Rightarrow> request \<Rightarrow> ('s, response) script" where
  "request rt q = (\<lambda>w.
     case send rt (server w) q of (r, s') \<Rightarrow>
       (case r of
          Raised e \<Rightarrow> (Inl (Error e), w\<lparr>server := s', trace := trace w @ [Http q r]\<rparr>)
        | Response resp \<Rightarrow> (Inr resp, w\<lparr>server := s', trace := trace w @ [Http q r]\<rparr>)))"

definition requests_post ::
  "'s runtime \<Rightarrow> string \<Rightarrow> json \<Rightarrow> (string \<times> string) list option \<Rightarrow> bool \<Rightarrow> ('s, response) script" where
  "requests_post rt u j h v =
     request rt \<lparr>http_method = POST, url = u, json_kw = Some j, headers_kw = h, verify_kw = v\<rparr>"

definition requests_put ::
  "'s runtime \<Rightarrow> string \<Rightarrow> json \<Rightarrow> (string \<times> string) list option \<Rightarrow> bool \<Rightarrow> ('s, response) script" where
  "requests_put rt u j h v =
     request rt \<lparr>http_method = PUT, url = u, json_kw = Some j, headers_kw = h, verify_kw = v\<rparr>"

definition requests_delete ::
  "'s runtime \<Rightarrow> string \<Rightarrow> (string \<times> string) list option \<Rightarrow> bool \<Rightarrow> ('s, response) script" where
  "requests_delete rt u h v =
     request rt \<lparr>http_method = DELETE, url = u, json_kw = None, headers_kw = h, verify_kw = v\<rparr>"

text \<open>\<open>resp.json()[k]\<close>: the value, or the exception the expression raises.\<close>

definition resp_item :: "response \<Rightarrow> string \<Rightarrow> pyerr + json" where
  "resp_item resp k =
     (case resp_json resp of None \<Rightarrow> Inl JSONDecodeError | Some j \<Rightarrow> getitem j k)"

definition json_item :: "response \<Rightarrow> string \<Rightarrow> ('s, json) script" where
  "json_item resp k = (case resp_item resp k of Inl e \<Rightarrow> raise (Error e) | Inr v \<Rightarrow> ret v)"

section \<open>The script verify\_flows.py\<close>

definition BASE_URL :: string where
  "BASE_URL = ''https://localhost:8080/api/v1''"

definition log :: "string \<Rightarrow> ('s, unit) script" where
  "log msg = print (''[TEST] '' @ msg)"

definition fail :: "string \<Rightarrow> ('s, 'a) script" where
  "fail msg = bnd (print (''[TEST] FAILED: '' @ msg)) (\<lambda>_. sys_exit 1)"

definition login_payload :: json where
  "login_payload = JDict [(''username'', JStr ''admin''), (''password'', JStr ''Admin@123'')]"

text \<open>Step 1, lines 19 to 28; its value is the variable \<open>headers\<close>.\<close>

definition login :: "'s runtime \<Rightarrow> ('s, (string \<times> string) list) script" where
  "login rt =
     bnd (log ''Logging in...'') (\<lambda>_.
     try_except
       (bnd (requests_post rt (BASE_URL @ ''/login'') login_payload None False) (\<lambda>resp.
        bnd (if status_code resp \<noteq> 200 then fail (''Login failed: '' @ resp_text resp) else ret ()) (\<lambda>_.
        bnd (json_item resp ''token'') (\<lambda>token.
        bnd (ret [(''Authorization'', ''Bearer '' @ str_json rt token)]) (\<lambda>headers.
        bnd (log ''Login successful.'') (\<lambda>_.
        ret headers))))))
       (\<lambda>e. fail (''Login exception: '' @ str_exc rt e)))"

definition cred_payload :: json where
  "cred_payload = JDict
     [(''name'', JStr ''Test WinRM Creds''),
      (''description'', JStr ''Created by test script''),
      (''protocol'', JStr ''winrm''),
      (''payload'', JDict [(''username'', JStr ''Administrator''), (''password'', JStr ''Password123!'')])]"

text \<open>Step 2, lines 31 to 42; its value is \<open>cred_id\<close>.\<close>

definition create_credential :: "'s runtime \<Rightarrow> (string \<times> string) list \<Rightarrow> ('s, json) script" where
  "create_credential rt headers =
     bnd (log ''Creating Credential Profile...'') (\<lambda>_.
     bnd (requests_post rt (BASE_URL @ ''/credentials'') cred_payload (Some headers) False) (\<lambda>resp.
     bnd (if status_code resp \<noteq> 201 then fail (''Create Credential failed: '' @ resp_text resp) else ret ()) (\<lambda>_.
     bnd (json_item resp ''id'') (\<lambda>cred_id.
     bnd (log (''Credential created: '' @ str_json rt cred_id)) (\<lambda>_.
     ret cred_id)))))"

definition disc_payload :: "json \<Rightarrow> json" where
  "disc_payload cred_id = JDict
     [(''name'', JStr ''Test Discovery''),
      (''target_value'', JStr ''192.168.1.10''),
      (''credential_profile_id'', cred_id),
      (''port'', JInt 5985),
      (''auto_run'', JBool False)]"

text \<open>Step 3, lines 45 to 57; its value is \<open>disc_id\<close>.\<close>

definition create_discovery :: "'s runtime \<Rightarrow> (string \<times> string) list \<Rightarrow> json \<Rightarrow> ('s, json) script" where
  "create_discovery rt headers cred_id =
     bnd (log ''Creating Discovery Profile...'') (\<lambda>_.
     bnd (requests_post rt (BASE_URL @ ''/discoveries'') (disc_payload cred_id) (Some headers) False) (\<lambda>resp.
     bnd (if status_code resp \<noteq> 201 then fail (''Create Discovery failed: '' @ resp_text resp) else ret ()) (\<lambda>_.
     bnd (json_item resp ''id'') (\<lambda>disc_id.
     bnd (log (''Discovery profile created: '' @ str_json rt disc_id)) (\<lambda>_.
     ret disc_id)))))"

definition mon_payload :: "json \<Rightarrow> json \<Rightarrow> json" where
  "mon_payload cred_id disc_id = JDict
     [(''ip_address'', JStr ''192.168.1.10''),
      (''plugin_id'', JStr ''windows-winrm''),
      (''credential_profile_id'', cred_id),
      (''discovery_profile_id'', disc_id),
      (''polling_interval_seconds'', JInt 30),
      (''status'', JStr ''active'')]"

text \<open>Step 4, lines 60 to 73; its value is \<open>mon_id\<close>.\<close>

definition create_monitor ::
  "'s runtime \<Rightarrow> (string \<times> string) list \<Rightarrow> json \<Rightarrow> json \<Rightarrow> ('s, json) script" where
  "create_monitor rt headers cred_id disc_id =
     bnd (log ''Creating Monitor (Triggers: Add Monitor Flow)...'') (\<lambda>_.
     bnd (requests_post rt (BASE_URL @ ''/monitors'') (mon_payload cred_id disc_id) (Some headers) False) (\<lambda>resp.
     bnd (if status_code resp \<noteq> 201 then fail (''Create Monitor failed: '' @ resp_text resp) else ret ()) (\<lambda>_.
     bnd (json_item resp ''id'') (\<lambda>mon_id.
     bnd (log (''Monitor created: '' @ str_json rt mon_id)) (\<lambda>_.
     ret mon_id)))))"

definition update_cred_payload :: json where
  "update_cred_payload = JDict
     [(''name'', JStr ''Test WinRM Creds Updated''),
      (''description'', JStr ''Updated by test script''),
      (''protocol'', JStr ''winrm''),
      (''payload'', JDict [(''username'', JStr ''Administrator''), (''password'', JStr ''NewPassword123!'')])]"

text \<open>Step 5, lines 79 to 89.\<close>

definition update_credential :: "'s runtime \<Rightarrow> (string \<times> string) list \<Rightarrow> json \<Rightarrow> ('s, unit) script" where
  "update_credential rt headers cred_id =
     bnd (log ''Updating Credential (Triggers: Update Credential Flow)...'') (\<lambda>_.
     bnd (requests_put rt (BASE_URL @ ''/credentials/'' @ str_json rt cred_id) update_cred_payload (Some headers) False) (\<lambda>resp.
     bnd (if status_code resp \<noteq> 200 then fail (''Update Credential failed: '' @ resp_text resp) else ret ()) (\<lambda>_.
     log ''Credential updated.'')))"

text \<open>Step 6, lines 95 to 99.\<close>

definition delete_monitor :: "'s runtime \<Rightarrow> (string \<times> string) list \<Rightarrow> json \<Rightarrow> ('s, unit) script" where
  "delete_monitor rt headers mon_id =
     bnd (log ''Deleting Monitor (Triggers: Delete Monitor Flow)...'') (\<lambda>_.
     bnd (requests_delete rt (BASE_URL @ ''/monitors/'' @ str_json rt mon_id) (Some headers) False) (\<lambda>resp.
     bnd (if status_code resp \<noteq> 204 then fail (''Delete Monitor failed: '' @ resp_text resp) else ret ()) (\<lambda>_.
     log ''Monitor deleted.'')))"

text \<open>The module, top to bottom.\<close>

definition main :: "'s runtime \<Rightarrow> ('s, unit) script" where
  "main rt =
     bnd (emit Disable_warnings) (\<lambda>_.
     bnd (login rt) (\<lambda>headers.
     bnd (create_credential rt headers) (\<lambda>cred_id.
     bnd (create_discovery rt headers cred_id) (\<lambda>disc_id.
     bnd (create_monitor rt headers cred_id disc_id) (\<lambda>mon_id.
     bnd (sleep 2) (\<lambda>_.
     bnd (update_credential rt headers cred_id) (\<lambda>_.
     bnd (sleep 2) (\<lambda>_.
     bnd (delete_monitor rt headers mon_id) (\<lambda>_.
     bnd (sleep 2) (\<lambda>_.
     log ''All steps completed successfully.''))))))))))"

text \<open>
  A run from a server state: how the interpreter ends and everything it did. The
  process exits 0 at the end of the module, with the code of a \<open>SystemExit\<close>, and with
  1 (after a traceback) on an exception nothing catches.
\<close>

definition run :: "'s runtime \<Rightarrow> 's \<Rightarrow> (exc + unit) \<times> event list" where
  "run rt s0 = (case main rt \<lparr>server = s0, trace = []\<rparr> of (r, w) \<Rightarrow> (r, trace w))"

fun exit_code :: "exc + unit \<Rightarrow> int" where
  "exit_code (Inr _) = 0"
| "exit_code (Inl (SystemExit code)) = code"
| "exit_code (Inl (Error _)) = 1"

section \<open>Reading a run\<close>

text \<open>The requests of a run with their replies, in order.\<close>

fun exchanges :: "event list \<Rightarrow> (request \<times> reply) list" where
  "exchanges [] = []"
| "exchanges (Http q r # es) = (q, r) # exchanges es"
| "exchanges (_ # es) = exchanges es"

text \<open>The lines written to standard output, in order.\<close>

fun printed :: "event list \<Rightarrow> string list" where
  "printed [] = []"
| "printed (Print l # es) = l # printed es"
| "printed (_ # es) = printed es"

text \<open>The status of a reply, when the server answered at all.\<close>

fun status_of :: "reply \<Rightarrow> int option" where
  "status_of (Response resp) = Some (status_code resp)"
| "status_of (Raised _) = None"

text \<open>The status codes of the responses received, in order.\<close>

fun statuses :: "event list \<Rightarrow> int list" where
  "statuses [] = []"
| "statuses (Http q (Response resp) # es) = status_code resp # statuses es"
| "statuses (_ # es) = statuses es"

definition expected_statuses :: "int list" where
  "expected_statuses = [200, 201, 201, 201, 200, 204]"

text \<open>A field of the JSON document a reply carries, and of the one a request sends.\<close>

fun reply_field :: "reply \<Rightarrow> string \<Rightarrow> json option" where
  "reply_field (Response resp) k = (case resp_item resp k of Inr v \<Rightarrow> Some v | Inl _ \<Rightarrow> None)"
| "reply_field (Raised _) k = None"

definition payload_field :: "request \<Rightarrow> string \<Rightarrow> json option" where
  "payload_field q k =
     (case json_kw q of
        None \<Rightarrow> None
      | Some j \<Rightarrow> (case getitem j k of Inr v \<Rightarrow> Some v | Inl _ \<Rightarrow> None))"

text \<open>The field names of a JSON object, in order.\<close>

fun keys :: "json \<Rightarrow> string list" where
  "keys (JDict kvs) = map fst kvs"
| "keys _ = []"

text \<open>The network calls and the waits of a run, in order, without their data.\<close>

datatype action = Call http_method | Wait nat

fun actions :: "event list \<Rightarrow> action list" where
  "actions [] = []"
| "actions (Http q r # es) = Call (http_method q) # actions es"
| "actions (Sleep n # es) = Wait n # actions es"
| "actions (_ # es) = actions es"

section \<open>The six requests and the lines around them\<close>

definition auth_headers :: "'s runtime \<Rightarrow> json \<Rightarrow> (string \<times> string) list" where
  "auth_headers rt token = [(''Authorization'', ''Bearer '' @ str_json rt token)]"

definition login_request :: request where
  "login_request = \<lparr>http_method = POST, url = BASE_URL @ ''/login'',
     json_kw = Some login_payload, headers_kw = None, verify_kw = False\<rparr>"

definition cred_request :: "(string \<times> string) list \<Rightarrow> request" where
  "cred_request h = \<lparr>http_method = POST, url = BASE_URL @ ''/credentials'',
     json_kw = Some cred_payload, headers_kw = Some h, verify_kw = False\<rparr>"

definition disc_request :: "(string \<times> string) list \<Rightarrow> json \<Rightarrow> request" where
  "disc_request h cred_id = \<lparr>http_method = POST, url = BASE_URL @ ''/discoveries'',
     json_kw = Some (disc_payload cred_id), headers_kw = Some h, verify_kw = False\<rparr>"

definition mon_request :: "(string \<times> string) list \<Rightarrow> json \<Rightarrow> json \<Rightarrow> request" where
  "mon_request h cred_id disc_id = \<lparr>http_method = POST, url = BASE_URL @ ''/monitors'',
     json_kw = Some (mon_payload cred_id disc_id), headers_kw = Some h, verify_kw = False\<rparr>"

definition upd_request :: "'s runtime \<Rightarrow> (string \<times> string) list \<Rightarrow> json \<Rightarrow> request" where
  "upd_request rt h cred_id = \<lparr>http_method = PUT, url = BASE_URL @ ''/credentials/'' @ str_json rt cred_id,
     json_kw = Some update_cred_payload, headers_kw = Some h, verify_kw = False\<rparr>"

definition del_request :: "'s runtime \<Rightarrow> (string \<times> string) list \<Rightarrow> json \<Rightarrow> request" where
  "del_request rt h mon_id = \<lparr>http_method = DELETE, url = BASE_URL @ ''/monitors/'' @ str_json rt mon_id,
     json_kw = None, headers_kw = Some h, verify_kw = False\<rparr>"

text \<open>What a step that succeeds adds to the trace.\<close>

definition seg_login :: "response \<Rightarrow> event list" where
  "seg_login r1 =
     [Disable_warnings, Print ''[TEST] Logging in...'',
      Http login_request (Response r1), Print ''[TEST] Login successful.'']"

definition seg_cred :: "'s runtime \<Rightarrow> (string \<times> string) list \<Rightarrow> response \<Rightarrow> json \<Rightarrow> event list" where
  "seg_cred rt h r2 c =
     [Print ''[TEST] Creating Credential Profile...'',
      Http (cred_request h) (Response r2),
      Print (''[TEST] Credential created: '' @ str_json rt c)]"

definition seg_disc :: "'s runtime \<Rightarrow> (string \<times> string) list \<Rightarrow> json \<Rightarrow> response \<Rightarrow> json \<Rightarrow> event list" where
  "seg_disc rt h c r3 d =
     [Print ''[TEST] Creating Discovery Profile...'',
      Http (disc_request h c) (Response r3),
      Print (''[TEST] Discovery profile created: '' @ str_json rt d)]"

definition seg_mon ::
  "'s runtime \<Rightarrow> (string \<times> string) list \<Rightarrow> json \<Rightarrow> json \<Rightarrow> response \<Rightarrow> json \<Rightarrow> event list" where
  "seg_mon rt h c d r4 m =
     [Print ''[TEST] Creating Monitor (Triggers: Add Monitor Flow)...'',
      Http (mon_request h c d) (Response r4),
      Print (''[TEST] Monitor created: '' @ str_json rt m),
      Sleep 2]"

definition seg_upd :: "'s runtime \<Rightarrow> (string \<times> string) list \<Rightarrow> json \<Rightarrow> response \<Rightarrow> event list" where
  "seg_upd rt h c r5 =
     [Print ''[TEST] Updating Credential (Triggers: Update Credential Flow)...'',
      Http (upd_request rt h c) (Response r5),
      Print ''[TEST] Credential updated.'',
      Sleep 2]"

definition seg_del :: "'s runtime \<Rightarrow> (string \<times> string) list \<Rightarrow> json \<Rightarrow> response \<Rightarrow> event list" where
  "seg_del rt h m r6 =
     [Print ''[TEST] Deleting Monitor (Triggers: Delete Monitor Flow)...'',
      Http (del_request rt h m) (Response r6),
      Print ''[TEST] Monitor deleted.'',
      Sleep 2,
      Print ''[TEST] All steps completed successfully.'']"

text \<open>A step that succeeds: the reply, the server's next state and the value read.\<close>

definition login_ok :: "'s runtime \<Rightarrow> 's \<Rightarrow> response \<Rightarrow> 's \<Rightarrow> json \<Rightarrow> bool" where
  "login_ok rt s0 r1 s1 tok \<longleftrightarrow>
     send rt s0 login_request = (Response r1, s1) \<and> status_code r1 = 200 \<and>
     resp_item r1 ''token'' = Inr tok"

definition created :: "'s runtime \<Rightarrow> 's \<Rightarrow> request \<Rightarrow> response \<Rightarrow> 's \<Rightarrow> json \<Rightarrow> bool" where
  "created rt s q r s' i \<longleftrightarrow>
     send rt s q = (Response r, s') \<and> status_code r = 201 \<and> resp_item r ''id'' = Inr i"

definition answered :: "'s runtime \<Rightarrow> 's \<Rightarrow> request \<Rightarrow> response \<Rightarrow> 's \<Rightarrow> int \<Rightarrow> bool" where
  "answered rt s q r s' code \<longleftrightarrow> send rt s q = (Response r, s') \<and> status_code r = code"

section \<open>An example server\<close>

text \<open>
  A server that counts the requests it has received and answers the six requests of the
  script as the script expects, except the request numbered \<open>bad\<close>, which it answers
  with status 500. Its ids are strings, on which \<open>str\<close> is the identity.
\<close>

fun demo_resp :: "nat \<Rightarrow> response" where
  "demo_resp 0 = \<lparr>status_code = 200, resp_text = ''token issued'',
     resp_json = Some (JDict [(''token'', JStr ''t0k3n'')])\<rparr>"
| "demo_resp (Suc 0) = \<lparr>status_code = 201, resp_text = ''credential stored'',
     resp_json = Some (JDict [(''id'', JStr ''cred-1''), (''protocol'', JStr ''winrm'')])\<rparr>"
| "demo_resp (Suc (Suc 0)) = \<lparr>status_code = 201, resp_text = ''discovery stored'',
     resp_json = Some (JDict [(''id'', JStr ''disc-1'')])\<rparr>"
| "demo_resp (Suc (Suc (Suc 0))) = \<lparr>status_code = 201, resp_text = ''monitor stored'',
     resp_json = Some (JDict [(''id'', JStr ''mon-1''), (''status'', JStr ''active'')])\<rparr>"
| "demo_resp (Suc (Suc (Suc (Suc 0)))) = \<lparr>status_code = 200, resp_text = ''credential stored'',
     resp_json = Some (JDict [(''id'', JStr ''cred-1'')])\<rparr>"
| "demo_resp _ = \<lparr>status_code = 204, resp_text = [], resp_json = None\<rparr>"

definition demo_error :: response where
  "demo_error = \<lparr>status_code = 500, resp_text = ''Internal Server Error'', resp_json = None\<rparr>"

definition demo_send :: "nat option \<Rightarrow> nat \<Rightarrow> request \<Rightarrow> reply \<times> nat" where
  "demo_send bad n q = (Response (if bad = Some n then demo_error else demo_resp n), Suc n)"

fun demo_str :: "json \<Rightarrow> string" where
  "demo_str (JStr s) = s"
| "demo_str _ = []"

definition demo_rt :: "nat option \<Rightarrow> nat runtime" where
  "demo_rt bad = \<lparr>send = demo_send bad, str_json = demo_str, str_exc = (\<lambda>e. ''error'')\<rparr>"

definition demo_headers :: "(string \<times> string) list" where
  "demo_headers = [(''Authorization'', ''Bearer t0k3n'')]"

definition demo_trace :: "event list" where
  "demo_trace =
     seg_login (demo_resp 0) @
     seg_cred (demo_rt None) demo_headers (demo_resp 1) (JStr ''cred-1'') @
     seg_disc (demo_rt None) demo_headers (JStr ''cred-1'') (demo_resp 2) (JStr ''disc-1'') @
     seg_mon (demo_rt None) demo_headers (JStr ''cred-1'') (JStr ''disc-1'') (demo_resp 3) (JStr ''mon-1'') @
     seg_upd (demo_rt None) demo_headers (JStr ''cred-1'') (demo_resp 4) @
     seg_del (demo_rt None) demo_headers (JStr ''mon-1'') (demo_resp 5)"

definition demo_trace_login_500 :: "event list" where
  "demo_trace_login_500 =
     [Disable_warnings, Print ''[TEST] Logging in...'',
      Http login_request (Response demo_error),
      Print ''[TEST] FAILED: Login failed: Internal Server Error'']"

definition demo_trace_cred_500 :: "event list" where
  "demo_trace_cred_500 =
     seg_login (demo_resp 0) @
     [Print ''[TEST] Creating Credential Profile...'',
      Http (cred_request demo_headers) (Response demo_error),
      Print ''[TEST] FAILED: Create Credential failed: Internal Server Error'']"

definition demo_trace_mon_500 :: "event list" where
  "demo_trace_mon_500 =
     seg_login (demo_resp 0) @
     seg_cred (demo_rt (Some 3)) demo_headers (demo_resp 1) (JStr ''cred-1'') @
     seg_disc (demo_rt (Some 3)) demo_headers (JStr ''cred-1'') (demo_resp 2) (JStr ''disc-1'') @
     [Print ''[TEST] Creating Monitor (Triggers: Add Monitor Flow)...'',
      Http (mon_request demo_headers (JStr ''cred-1'') (JStr ''disc-1'')) (Response demo_error),
      Print ''[TEST] FAILED: Create Monitor failed: Internal Server Error'']"


definition demo_trace_del_500 :: "event list" where
  "demo_trace_del_500 =
     seg_login (demo_resp 0) @
     seg_cred (demo_rt (Some 5)) demo_headers (demo_resp 1) (JStr ''cred-1'') @
     seg_disc (demo_rt (Some 5)) demo_headers (JStr ''cred-1'') (demo_resp 2) (JStr ''disc-1'') @
     seg_mon (demo_rt (Some 5)) demo_headers (JStr ''cred-1'') (JStr ''disc-1'') (demo_resp 3) (JStr ''mon-1'') @
     seg_upd (demo_rt (Some 5)) demo_headers (JStr ''cred-1'') (demo_resp 4) @
     [Print ''[TEST] Deleting Monitor (Triggers: Delete Monitor Flow)...'',
      Http (del_request (demo_rt (Some 5)) demo_headers (JStr ''mon-1'')) (Response demo_error),
      Print ''[TEST] FAILED: Delete Monitor failed: Internal Server Error'']"

section \<open>The API the script talks to\<close>

text \<open>
  Modelled from the spec: the HTTP API layer, which the repository's source does not
  contain (only the script that calls it does). The endpoints, their request shapes, their
  statuses and the calls they trigger are those of section 6 of the spec; the references
  that must exist, the positive polling interval and the status values are those of the
  data model of section 3. Where the spec is silent the model takes a parameter or says what
  it chose: the tokens and ids issued and the text of a body are parameters; a request
  without an issued bearer token is answered 401, an unknown path or id 404, and a
  validation failure (the spec's 4xx) 400.
\<close>

text \<open>
  Modelled from the spec: the calls of the Propagation Coordinator that the API layer
  triggers (section 4.5); the coordinator itself is not in the source.
\<close>

datatype trigger = OnMonitorCreated string | OnCredentialUpdated string | OnMonitorDeleted string

text \<open>
  Modelled from the spec: what the spec leaves open in the API layer, as parameters: the
  token issued at a login, the opaque id issued at a creation (both by the count of what was
  issued before) and the text of a response body.
\<close>

record api =
  token_of :: "nat \<Rightarrow> string"
  id_of :: "nat \<Rightarrow> string"
  text_of :: "json option \<Rightarrow> string"

text \<open>
  Modelled from the spec: the state of the API layer, which is the tokens issued, the stored
  credentials, discoveries and monitors by id, and the calls triggered so far.
\<close>

record api_state =
  issued :: "string list"
  credentials :: "(string \<times> json) list"
  discoveries :: "(string \<times> json) list"
  monitors :: "(string \<times> json) list"
  counter :: nat
  triggered :: "trigger list"

text \<open>Modelled from the spec: the API layer before any request, with empty stores.\<close>

definition api_init :: api_state where
  "api_init = \<lparr>issued = [], credentials = [], discoveries = [], monitors = [], counter = 0,
     triggered = []\<rparr>"

text \<open>Modelled from the spec: a response with a status and a JSON body, or none.\<close>

definition answer :: "api \<Rightarrow> int \<Rightarrow> json option \<Rightarrow> response" where
  "answer a code body = \<lparr>status_code = code, resp_text = text_of a body, resp_json = body\<rparr>"

text \<open>
  Modelled from the spec: reading the \<open>{id}\<close> of a path and the token of a header, as what
  follows a fixed prefix.
\<close>

fun strip_prefix :: "string \<Rightarrow> string \<Rightarrow> string option" where
  "strip_prefix [] s = Some s"
| "strip_prefix (c # cs) [] = None"
| "strip_prefix (c # cs) (d # ds) = (if c = d then strip_prefix cs ds else None)"

text \<open>Modelled from the spec: a body of the shape \<open>{k1, k2, ...}\<close> is an object with these fields.\<close>

definition has_fields :: "json \<Rightarrow> string list \<Rightarrow> bool" where
  "has_fields j ks = list_all (\<lambda>k. case getitem j k of Inr v \<Rightarrow> True | Inl e \<Rightarrow> False) ks"

text \<open>Modelled from the spec: a reference is the id of a stored record (not dangling).\<close>

fun refers :: "(string \<times> json) list \<Rightarrow> json \<Rightarrow> bool" where
  "refers store (JStr i) = (map_of store i \<noteq> None)"
| "refers store _ = False"

text \<open>Modelled from the spec: the response body \<open>{id, ...}\<close> of a stored record.\<close>

fun with_id :: "string \<Rightarrow> json \<Rightarrow> json" where
  "with_id i (JDict kvs) = JDict ((''id'', JStr i) # kvs)"
| "with_id i j = JDict [(''id'', JStr i)]"

text \<open>
  Modelled from the spec: \<open>POST /login\<close>, \<open>{username, password}\<close>, answered 200 with
  \<open>{token}\<close>.
\<close>

definition api_login :: "api \<Rightarrow> api_state \<Rightarrow> json option \<Rightarrow> response \<times> api_state" where
  "api_login a s body =
     (case body of
        None \<Rightarrow> (answer a 400 None, s)
      | Some j \<Rightarrow>
          if has_fields j [''username'', ''password'']
          then (answer a 200 (Some (JDict [(''token'', JStr (token_of a (counter s)))])),
                s\<lparr>issued := token_of a (counter s) # issued s, counter := Suc (counter s)\<rparr>)
          else (answer a 400 None, s))"

text \<open>
  Modelled from the spec: the token is used as \<open>Authorization: Bearer <token>\<close> on all
  calls after the login.
\<close>

definition authorized :: "api_state \<Rightarrow> request \<Rightarrow> bool" where
  "authorized s q =
     (case headers_kw q of
        None \<Rightarrow> False
      | Some h \<Rightarrow>
          (case map_of h ''Authorization'' of
             None \<Rightarrow> False
           | Some v \<Rightarrow>
               (case strip_prefix ''Bearer '' v of
                  None \<Rightarrow> False
                | Some t \<Rightarrow> t \<in> set (issued s))))"

text \<open>
  Modelled from the spec: \<open>POST /credentials\<close>, \<open>{name, description, protocol, payload}\<close>,
  answered 201 with \<open>{id, ...}\<close>.
\<close>

definition credential_shape :: "json \<Rightarrow> bool" where
  "credential_shape j = has_fields j [''name'', ''description'', ''protocol'', ''payload'']"

text \<open>
  Modelled from the spec: the handler of \<open>POST /credentials\<close>: it stores the body under a
  new id; a body of another shape is a validation failure.
\<close>

definition api_create_credential :: "api \<Rightarrow> api_state \<Rightarrow> json option \<Rightarrow> response \<times> api_state" where
  "api_create_credential a s body =
     (case body of
        None \<Rightarrow> (answer a 400 None, s)
      | Some j \<Rightarrow>
          if credential_shape j
          then (answer a 201 (Some (with_id (id_of a (counter s)) j)),
                s\<lparr>credentials := (id_of a (counter s), j) # credentials s, counter := Suc (counter s)\<rparr>)
          else (answer a 400 None, s))"

text \<open>
  Modelled from the spec: \<open>PUT /credentials/{id}\<close>, the same shape, answered 200; triggers
  \<open>OnCredentialUpdated(id)\<close>, after the store is written.
\<close>

definition api_update_credential ::
  "api \<Rightarrow> api_state \<Rightarrow> string \<Rightarrow> json option \<Rightarrow> response \<times> api_state" where
  "api_update_credential a s i body =
     (if map_of (credentials s) i = None then (answer a 404 None, s)
      else
        (case body of
           None \<Rightarrow> (answer a 400 None, s)
         | Some j \<Rightarrow>
             if credential_shape j
             then (answer a 200 (Some (with_id i j)),
                   s\<lparr>credentials := (i, j) # credentials s,
                      triggered := triggered s @ [OnCredentialUpdated i]\<rparr>)
             else (answer a 400 None, s)))"

text \<open>
  Modelled from the spec: \<open>POST /discoveries\<close>,
  \<open>{name, target_value, credential_profile_id, port, auto_run}\<close>, answered 201 with
  \<open>{id, ...}\<close>; the \<open>credential_profile_id\<close> must reference an existing credential.
\<close>

definition discovery_valid :: "api_state \<Rightarrow> json \<Rightarrow> bool" where
  "discovery_valid s j \<longleftrightarrow>
     has_fields j [''name'', ''target_value'', ''credential_profile_id'', ''port'', ''auto_run''] \<and>
     (case getitem j ''credential_profile_id'' of Inr c \<Rightarrow> refers (credentials s) c | Inl e \<Rightarrow> False)"

text \<open>
  Modelled from the spec: the handler of \<open>POST /discoveries\<close>: it stores the body under a
  new id; an invalid body is a validation failure.
\<close>

definition api_create_discovery :: "api \<Rightarrow> api_state \<Rightarrow> json option \<Rightarrow> response \<times> api_state" where
  "api_create_discovery a s body =
     (case body of
        None \<Rightarrow> (answer a 400 None, s)
      | Some j \<Rightarrow>
          if discovery_valid s j
          then (answer a 201 (Some (with_id (id_of a (counter s)) j)),
                s\<lparr>discoveries := (id_of a (counter s), j) # discoveries s, counter := Suc (counter s)\<rparr>)
          else (answer a 400 None, s))"

text \<open>
  Modelled from the spec: \<open>POST /monitors\<close>, \<open>{ip_address, plugin_id,
  credential_profile_id, discovery_profile_id, polling_interval_seconds, status}\<close>, answered
  201 with \<open>{id, ...}\<close>; triggers \<open>OnMonitorCreated(id)\<close>. The credential reference is
  required and must exist, the discovery reference is optional and must exist when given,
  the interval is positive and the status is one of active, paused, deleted.
\<close>

definition monitor_valid :: "api_state \<Rightarrow> json \<Rightarrow> bool" where
  "monitor_valid s j \<longleftrightarrow>
     has_fields j [''ip_address'', ''plugin_id'', ''credential_profile_id'',
       ''polling_interval_seconds'', ''status''] \<and>
     (case getitem j ''credential_profile_id'' of Inr c \<Rightarrow> refers (credentials s) c | Inl e \<Rightarrow> False) \<and>
     (case getitem j ''discovery_profile_id'' of Inr d \<Rightarrow> refers (discoveries s) d | Inl e \<Rightarrow> True) \<and>
     (case getitem j ''polling_interval_seconds'' of Inr (JInt n) \<Rightarrow> 0 < n | _ \<Rightarrow> False) \<and>
     (case getitem j ''status'' of
        Inr (JStr st) \<Rightarrow> st = ''active'' \<or> st = ''paused'' \<or> st = ''deleted''
      | _ \<Rightarrow> False)"

text \<open>
  Modelled from the spec: the handler of \<open>POST /monitors\<close>: it stores the body under a new
  id and then triggers \<open>OnMonitorCreated\<close>; an invalid body is a validation failure and
  triggers nothing.
\<close>

definition api_create_monitor :: "api \<Rightarrow> api_state \<Rightarrow> json option \<Rightarrow> response \<times> api_state" where
  "api_create_monitor a s body =
     (case body of
        None \<Rightarrow> (answer a 400 None, s)
      | Some j \<Rightarrow>
          if monitor_valid s j
          then (answer a 201 (Some (with_id (id_of a (counter s)) j)),
                s\<lparr>monitors := (id_of a (counter s), j) # monitors s, counter := Suc (counter s),
                   triggered := triggered s @ [OnMonitorCreated (id_of a (counter s))]\<rparr>)
          else (answer a 400 None, s))"

text \<open>
  Modelled from the spec: \<open>DELETE /monitors/{id}\<close>, answered 204 (no body); triggers
  \<open>OnMonitorDeleted(id)\<close>.
\<close>

definition api_delete_monitor :: "api \<Rightarrow> api_state \<Rightarrow> string \<Rightarrow> response \<times> api_state" where
  "api_delete_monitor a s i =
     (if map_of (monitors s) i = None then (answer a 404 None, s)
      else (answer a 204 None,
            s\<lparr>monitors := filter (\<lambda>kv. fst kv \<noteq> i) (monitors s),
               triggered := triggered s @ [OnMonitorDeleted i]\<rparr>))"

text \<open>Modelled from the spec: the routes of section 6 under the base URL.\<close>

definition api_handle :: "api \<Rightarrow> api_state \<Rightarrow> request \<Rightarrow> response \<times> api_state" where
  "api_handle a s q =
     (case strip_prefix BASE_URL (url q) of
        None \<Rightarrow> (answer a 404 None, s)
      | Some p \<Rightarrow>
          if http_method q = POST \<and> p = ''/login'' then api_login a s (json_kw q)
          else if \<not> authorized s q then (answer a 401 None, s)
          else if http_method q = POST \<and> p = ''/credentials'' then api_create_credential a s (json_kw q)
          else if http_method q = POST \<and> p = ''/discoveries'' then api_create_discovery a s (json_kw q)
          else if http_method q = POST \<and> p = ''/monitors'' then api_create_monitor a s (json_kw q)
          else if http_method q = PUT then
            (case strip_prefix ''/credentials/'' p of
               Some i \<Rightarrow> api_update_credential a s i (json_kw q)
             | None \<Rightarrow> (answer a 404 None, s))
          else if http_method q = DELETE then
            (case strip_prefix ''/monitors/'' p of
               Some i \<Rightarrow> api_delete_monitor a s i
             | None \<Rightarrow> (answer a 404 None, s))
          else (answer a 404 None, s))"

text \<open>
  Modelled from the spec: the API layer as the server of the script; it answers every
  request with a response.
\<close>

definition api_send :: "api \<Rightarrow> api_state \<Rightarrow> request \<Rightarrow> reply \<times> api_state" where
  "api_send a s q = (case api_handle a s q of (r, s') \<Rightarrow> (Response r, s'))"

text \<open>
  Modelled from the spec: the runtime of the script with the API layer as its server;
  \<open>str\<close> of a JSON value and of an exception stay parameters (\<open>f\<close>, \<open>g\<close>).
\<close>

definition api_rt :: "api \<Rightarrow> (json \<Rightarrow> string) \<Rightarrow> (pyerr \<Rightarrow> string) \<Rightarrow> api_state runtime" where
  "api_rt a f g = \<lparr>send = api_send a, str_json = f, str_exc = g\<rparr>"

text \<open>
  An instance of the API for examples, and a state of it in which one credential, one
  discovery and one monitor are stored and one token is issued.
\<close>

definition demo_api :: api where
  "demo_api = \<lparr>token_of = (\<lambda>n. ''t0k3n''),
     id_of = (\<lambda>n. if n = 1 then ''cred-1'' else if n = 2 then ''disc-1'' else ''mon-1''),
     text_of = (\<lambda>body. [])\<rparr>"

definition demo_state :: api_state where
  "demo_state = \<lparr>issued = [''t0k3n''], credentials = [(''cred-1'', cred_payload)],
     discoveries = [(''disc-1'', disc_payload (JStr ''cred-1''))],
     monitors = [(''mon-1'', mon_payload (JStr ''cred-1'') (JStr ''disc-1''))], counter = 4,
     triggered = [OnMonitorCreated ''mon-1'']\<rparr>"

section \<open>Executing the statements\<close>

text \<open>Rewrite rules that run a statement at the head of a sequence.\<close>

lemma bnd_emit: "bnd (emit e) f w = f () (w\<lparr>trace := trace w @ [e]\<rparr>)"
  by (simp add: bnd_def emit_def)
lemma bnd_print: "bnd (print l) f w = f () (w\<lparr>trace := trace w @ [Print l]\<rparr>)"
  by (simp add: print_def bnd_emit)
lemma bnd_log: "bnd (log m) f w = f () (w\<lparr>trace := trace w @ [Print (''[TEST] '' @ m)]\<rparr>)"
  by (simp add: log_def bnd_print)
lemma bnd_sleep: "bnd (sleep n) f w = f () (w\<lparr>trace := trace w @ [Sleep n]\<rparr>)"
  by (simp add: sleep_def bnd_emit)
lemma bnd_ret: "bnd (ret x) f w = f x w"
  by (simp add: bnd_def ret_def)
lemma bnd_raise: "bnd (raise e) f w = (Inl e, w)"
  by (simp add: bnd_def raise_def)
lemma bnd_assoc: "bnd (bnd m f) g = bnd m (\<lambda>x. bnd (f x) g)"
  by (auto simp add: bnd_def fun_eq_iff split: prod.split sum.split)
lemma bnd_fail: "bnd (fail m) f w = (Inl (SystemExit 1), w\<lparr>trace := trace w @ [Print (''[TEST] FAILED: '' @ m)]\<rparr>)"
  by (simp add: fail_def bnd_assoc bnd_print sys_exit_def bnd_raise)
lemma fail_run: "fail m w = (Inl (SystemExit 1), w\<lparr>trace := trace w @ [Print (''[TEST] FAILED: '' @ m)]\<rparr>)"
  by (simp add: fail_def bnd_print sys_exit_def raise_def)
lemma log_run: "log m w = (Inr (), w\<lparr>trace := trace w @ [Print (''[TEST] '' @ m)]\<rparr>)"
  by (simp add: log_def print_def emit_def)
lemma bnd_if: "bnd (if c then m1 else m2) f w = (if c then bnd m1 f w else bnd m2 f w)"
  by simp
lemma bnd_request: "bnd (request rt q) f w =
  (case send rt (server w) q of
     (Raised e, s') \<Rightarrow> (Inl (Error e), w\<lparr>server := s', trace := trace w @ [Http q (Raised e)]\<rparr>)
   | (Response resp, s') \<Rightarrow> f resp (w\<lparr>server := s', trace := trace w @ [Http q (Response resp)]\<rparr>))"
  by (simp add: bnd_def request_def split: prod.split reply.split)
lemma bnd_json_item: "bnd (json_item resp k) f w =
  (case resp_item resp k of Inl e \<Rightarrow> (Inl (Error e), w) | Inr v \<Rightarrow> f v w)"
  by (simp add: json_item_def bnd_raise bnd_ret split: sum.split)

lemmas exec = bnd_assoc bnd_emit bnd_print bnd_log bnd_sleep bnd_ret bnd_raise bnd_fail bnd_if
  bnd_request bnd_json_item fail_run log_run requests_post_def requests_put_def requests_delete_def


lemma try_request: "try_except (bnd (request rt q) f) h w =
  (case send rt (server w) q of
     (Raised e, s') \<Rightarrow> h e (w\<lparr>server := s', trace := trace w @ [Http q (Raised e)]\<rparr>)
   | (Response resp, s') \<Rightarrow> try_except (f resp) h (w\<lparr>server := s', trace := trace w @ [Http q (Response resp)]\<rparr>))"
  by (simp add: try_except_def bnd_def request_def split: prod.split reply.split)
lemma try_if: "try_except (bnd (if c then m1 else m2) f) h w = (if c then try_except (bnd m1 f) h w else try_except (bnd m2 f) h w)"
  by simp
lemma try_fail: "try_except (bnd (fail m) f) h w = (Inl (SystemExit 1), w\<lparr>trace := trace w @ [Print (''[TEST] FAILED: '' @ m)]\<rparr>)"
  by (simp add: try_except_def bnd_fail)
lemma try_ret: "try_except (bnd (ret x) f) h w = try_except (f x) h w"
  by (simp add: try_except_def bnd_ret)
lemma try_ret0: "try_except (ret x) h w = (Inr x, w)"
  by (simp add: try_except_def ret_def)
lemma try_log: "try_except (bnd (log m) f) h w = try_except (f ()) h (w\<lparr>trace := trace w @ [Print (''[TEST] '' @ m)]\<rparr>)"
  by (simp add: try_except_def bnd_log)
lemma try_json_item: "try_except (bnd (json_item resp k) f) h w =
  (case resp_item resp k of Inl e \<Rightarrow> h e w | Inr v \<Rightarrow> try_except (f v) h w)"
  by (simp add: try_except_def bnd_json_item split: sum.split)

lemmas exec_try = try_request try_if try_fail try_ret try_ret0 try_log try_json_item

lemma bnd_try: "bnd (try_except m h) k w =
   (case try_except m h w of (Inl e, w') \<Rightarrow> (Inl e, w') | (Inr x, w') \<Rightarrow> k x w')"
  by (simp add: bnd_def)




lemmas step_defs = login_def create_credential_def create_discovery_def create_monitor_def
  update_credential_def delete_monitor_def
lemmas req_defs = login_request_def cred_request_def disc_request_def mon_request_def
  upd_request_def del_request_def auth_headers_def
lemmas seg_defs = seg_login_def seg_cred_def seg_disc_def seg_mon_def seg_upd_def seg_del_def
lemmas ok_defs = login_ok_def created_def answered_def

text \<open>
  What one step does, for any statements that follow it (\<open>k\<close>) and from any world: it
  stops the script in one of the ways listed, or hands its value to what follows.
\<close>

lemma bnd_login_cases [consumes 1, case_names raised status token ok]:
  assumes "bnd (login rt) k w = (res, w')"
  obtains
    (raised) e s1 where
      "send rt (server w) login_request = (Raised e, s1)"
      "res = Inl (SystemExit 1)"
      "w' = w\<lparr>server := s1, trace := trace w @ [Print ''[TEST] Logging in...'', Http login_request (Raised e), Print (''[TEST] FAILED: Login exception: '' @ str_exc rt e)]\<rparr>"
  | (status) r1 s1 where
      "send rt (server w) login_request = (Response r1, s1)"
      "status_code r1 \<noteq> 200"
      "res = Inl (SystemExit 1)"
      "w' = w\<lparr>server := s1, trace := trace w @ [Print ''[TEST] Logging in...'', Http login_request (Response r1), Print (''[TEST] FAILED: Login failed: '' @ resp_text r1)]\<rparr>"
  | (token) r1 s1 e where
      "send rt (server w) login_request = (Response r1, s1)"
      "status_code r1 = 200"
      "resp_item r1 ''token'' = Inl e"
      "res = Inl (SystemExit 1)"
      "w' = w\<lparr>server := s1, trace := trace w @ [Print ''[TEST] Logging in...'', Http login_request (Response r1), Print (''[TEST] FAILED: Login exception: '' @ str_exc rt e)]\<rparr>"
  | (ok) r1 s1 tok where
      "login_ok rt (server w) r1 s1 tok"
      "k (auth_headers rt tok) (w\<lparr>server := s1, trace := trace w @ [Print ''[TEST] Logging in...'', Http login_request (Response r1), Print ''[TEST] Login successful.'']\<rparr>) = (res, w')"
proof -
  have "bnd (login rt) k w = (res, w') \<longrightarrow> thesis"
    using that
    by (simp add: login_def exec exec_try bnd_try req_defs ok_defs
          split: prod.split reply.split sum.split)
  with assms show thesis by simp
qed

lemma bnd_create_credential_cases [consumes 1, case_names raised status id ok]:
  assumes "bnd (create_credential rt h) k w = (res, w')"
  obtains
    (raised) e s' where
      "send rt (server w) (cred_request h) = (Raised e, s')"
      "res = Inl (Error e)"
      "w' = w\<lparr>server := s', trace := trace w @ [Print ''[TEST] Creating Credential Profile...'', Http (cred_request h) (Raised e)]\<rparr>"
  | (status) r s' where
      "send rt (server w) (cred_request h) = (Response r, s')"
      "status_code r \<noteq> 201"
      "res = Inl (SystemExit 1)"
      "w' = w\<lparr>server := s', trace := trace w @ [Print ''[TEST] Creating Credential Profile...'', Http (cred_request h) (Response r), Print (''[TEST] FAILED: Create Credential failed: '' @ resp_text r)]\<rparr>"
  | (id) r s' e where
      "send rt (server w) (cred_request h) = (Response r, s')"
      "status_code r = 201"
      "resp_item r ''id'' = Inl e"
      "res = Inl (Error e)"
      "w' = w\<lparr>server := s', trace := trace w @ [Print ''[TEST] Creating Credential Profile...'', Http (cred_request h) (Response r)]\<rparr>"
  | (ok) r s' i where
      "created rt (server w) (cred_request h) r s' i"
      "k i (w\<lparr>server := s', trace := trace w @ [Print ''[TEST] Creating Credential Profile...'', Http (cred_request h) (Response r), Print (''[TEST] Credential created: '' @ str_json rt i)]\<rparr>) = (res, w')"
proof -
  have "bnd (create_credential rt h) k w = (res, w') \<longrightarrow> thesis"
    using that
    by (simp add: create_credential_def exec exec_try bnd_try req_defs ok_defs
          split: prod.split reply.split sum.split)
  with assms show thesis by simp
qed

lemma bnd_create_discovery_cases [consumes 1, case_names raised status id ok]:
  assumes "bnd (create_discovery rt h c) k w = (res, w')"
  obtains
    (raised) e s' where
      "send rt (server w) (disc_request h c) = (Raised e, s')"
      "res = Inl (Error e)"
      "w' = w\<lparr>server := s', trace := trace w @ [Print ''[TEST] Creating Discovery Profile...'', Http (disc_request h c) (Raised e)]\<rparr>"
  | (status) r s' where
      "send rt (server w) (disc_request h c) = (Response r, s')"
      "status_code r \<noteq> 201"
      "res = Inl (SystemExit 1)"
      "w' = w\<lparr>server := s', trace := trace w @ [Print ''[TEST] Creating Discovery Profile...'', Http (disc_request h c) (Response r), Print (''[TEST] FAILED: Create Discovery failed: '' @ resp_text r)]\<rparr>"
  | (id) r s' e where
      "send rt (server w) (disc_request h c) = (Response r, s')"
      "status_code r = 201"
      "resp_item r ''id'' = Inl e"
      "res = Inl (Error e)"
      "w' = w\<lparr>server := s', trace := trace w @ [Print ''[TEST] Creating Discovery Profile...'', Http (disc_request h c) (Response r)]\<rparr>"
  | (ok) r s' i where
      "created rt (server w) (disc_request h c) r s' i"
      "k i (w\<lparr>server := s', trace := trace w @ [Print ''[TEST] Creating Discovery Profile...'', Http (disc_request h c) (Response r), Print (''[TEST] Discovery profile created: '' @ str_json rt i)]\<rparr>) = (res, w')"
proof -
  have "bnd (create_discovery rt h c) k w = (res, w') \<longrightarrow> thesis"
    using that
    by (simp add: create_discovery_def exec exec_try bnd_try req_defs ok_defs
          split: prod.split reply.split sum.split)
  with assms show thesis by simp
qed

lemma bnd_create_monitor_cases [consumes 1, case_names raised status id ok]:
  assumes "bnd (create_monitor rt h c d) k w = (res, w')"
  obtains
    (raised) e s' where
      "send rt (server w) (mon_request h c d) = (Raised e, s')"
      "res = Inl (Error e)"
      "w' = w\<lparr>server := s', trace := trace w @ [Print ''[TEST] Creating Monitor (Triggers: Add Monitor Flow)...'', Http (mon_request h c d) (Raised e)]\<rparr>"
  | (status) r s' where
      "send rt (server w) (mon_request h c d) = (Response r, s')"
      "status_code r \<noteq> 201"
      "res = Inl (SystemExit 1)"
      "w' = w\<lparr>server := s', trace := trace w @ [Print ''[TEST] Creating Monitor (Triggers: Add Monitor Flow)...'', Http (mon_request h c d) (Response r), Print (''[TEST] FAILED: Create Monitor failed: '' @ resp_text r)]\<rparr>"
  | (id) r s' e where
      "send rt (server w) (mon_request h c d) = (Response r, s')"
      "status_code r = 201"
      "resp_item r ''id'' = Inl e"
      "res = Inl (Error e)"
      "w' = w\<lparr>server := s', trace := trace w @ [Print ''[TEST] Creating Monitor (Triggers: Add Monitor Flow)...'', Http (mon_request h c d) (Response r)]\<rparr>"
  | (ok) r s' i where
      "created rt (server w) (mon_request h c d) r s' i"
      "k i (w\<lparr>server := s', trace := trace w @ [Print ''[TEST] Creating Monitor (Triggers: Add Monitor Flow)...'', Http (mon_request h c d) (Response r), Print (''[TEST] Monitor created: '' @ str_json rt i)]\<rparr>) = (res, w')"
proof -
  have "bnd (create_monitor rt h c d) k w = (res, w') \<longrightarrow> thesis"
    using that
    by (simp add: create_monitor_def exec exec_try bnd_try req_defs ok_defs
          split: prod.split reply.split sum.split)
  with assms show thesis by simp
qed

lemma bnd_update_credential_cases [consumes 1, case_names raised status ok]:
  assumes "bnd (update_credential rt h c) k w = (res, w')"
  obtains
    (raised) e s' where
      "send rt (server w) (upd_request rt h c) = (Raised e, s')"
      "res = Inl (Error e)"
      "w' = w\<lparr>server := s', trace := trace w @ [Print ''[TEST] Updating Credential (Triggers: Update Credential Flow)...'', Http (upd_request rt h c) (Raised e)]\<rparr>"
  | (status) r s' where
      "send rt (server w) (upd_request rt h c) = (Response r, s')"
      "status_code r \<noteq> 200"
      "res = Inl (SystemExit 1)"
      "w' = w\<lparr>server := s', trace := trace w @ [Print ''[TEST] Updating Credential (Triggers: Update Credential Flow)...'', Http (upd_request rt h c) (Response r), Print (''[TEST] FAILED: Update Credential failed: '' @ resp_text r)]\<rparr>"
  | (ok) r s' where
      "answered rt (server w) (upd_request rt h c) r s' 200"
      "k () (w\<lparr>server := s', trace := trace w @ [Print ''[TEST] Updating Credential (Triggers: Update Credential Flow)...'', Http (upd_request rt h c) (Response r), Print ''[TEST] Credential updated.'']\<rparr>) = (res, w')"
proof -
  have "bnd (update_credential rt h c) k w = (res, w') \<longrightarrow> thesis"
    using that
    by (simp add: update_credential_def exec exec_try bnd_try req_defs ok_defs
          split: prod.split reply.split sum.split)
  with assms show thesis by simp
qed

lemma bnd_delete_monitor_cases [consumes 1, case_names raised status ok]:
  assumes "bnd (delete_monitor rt h m) k w = (res, w')"
  obtains
    (raised) e s' where
      "send rt (server w) (del_request rt h m) = (Raised e, s')"
      "res = Inl (Error e)"
      "w' = w\<lparr>server := s', trace := trace w @ [Print ''[TEST] Deleting Monitor (Triggers: Delete Monitor Flow)...'', Http (del_request rt h m) (Raised e)]\<rparr>"
  | (status) r s' where
      "send rt (server w) (del_request rt h m) = (Response r, s')"
      "status_code r \<noteq> 204"
      "res = Inl (SystemExit 1)"
      "w' = w\<lparr>server := s', trace := trace w @ [Print ''[TEST] Deleting Monitor (Triggers: Delete Monitor Flow)...'', Http (del_request rt h m) (Response r), Print (''[TEST] FAILED: Delete Monitor failed: '' @ resp_text r)]\<rparr>"
  | (ok) r s' where
      "answered rt (server w) (del_request rt h m) r s' 204"
      "k () (w\<lparr>server := s', trace := trace w @ [Print ''[TEST] Deleting Monitor (Triggers: Delete Monitor Flow)...'', Http (del_request rt h m) (Response r), Print ''[TEST] Monitor deleted.'']\<rparr>) = (res, w')"
proof -
  have "bnd (delete_monitor rt h m) k w = (res, w') \<longrightarrow> thesis"
    using that
    by (simp add: delete_monitor_def exec exec_try bnd_try req_defs ok_defs
          split: prod.split reply.split sum.split)
  with assms show thesis by simp
qed

text \<open>
  Every run is one of seventeen: it stops at one of the six requests because the call
  raises, because the status is not the expected one, or (creations and login) because the
  value cannot be read from the body; or it runs to the end.
\<close>

lemma run_cases [consumes 1, case_names login_raised login_status login_token cred_raised cred_status cred_id disc_raised disc_status disc_id mon_raised mon_status mon_id upd_raised upd_status del_raised del_status success]:
  assumes "run rt s0 = (res, tr)"
  obtains
    (login_raised) e s1 where
      "send rt s0 login_request = (Raised e, s1)"
      "res = Inl (SystemExit 1)"
      "tr = [Disable_warnings, Print ''[TEST] Logging in...'', Http login_request (Raised e), Print (''[TEST] FAILED: Login exception: '' @ str_exc rt e)]"
  | (login_status) r1 s1 where
      "send rt s0 login_request = (Response r1, s1)"
      "status_code r1 \<noteq> 200"
      "res = Inl (SystemExit 1)"
      "tr = [Disable_warnings, Print ''[TEST] Logging in...'', Http login_request (Response r1), Print (''[TEST] FAILED: Login failed: '' @ resp_text r1)]"
  | (login_token) r1 s1 e where
      "send rt s0 login_request = (Response r1, s1)"
      "status_code r1 = 200"
      "resp_item r1 ''token'' = Inl e"
      "res = Inl (SystemExit 1)"
      "tr = [Disable_warnings, Print ''[TEST] Logging in...'', Http login_request (Response r1), Print (''[TEST] FAILED: Login exception: '' @ str_exc rt e)]"
  | (cred_raised) r1 s1 tok h e s2 where
      "login_ok rt s0 r1 s1 tok"
      "h = auth_headers rt tok"
      "send rt s1 (cred_request h) = (Raised e, s2)"
      "res = Inl (Error e)"
      "tr = seg_login r1 @ [Print ''[TEST] Creating Credential Profile...'', Http (cred_request h) (Raised e)]"
  | (cred_status) r1 s1 tok h r2 s2 where
      "login_ok rt s0 r1 s1 tok"
      "h = auth_headers rt tok"
      "send rt s1 (cred_request h) = (Response r2, s2)"
      "status_code r2 \<noteq> 201"
      "res = Inl (SystemExit 1)"
      "tr = seg_login r1 @ [Print ''[TEST] Creating Credential Profile...'', Http (cred_request h) (Response r2), Print (''[TEST] FAILED: Create Credential failed: '' @ resp_text r2)]"
  | (cred_id) r1 s1 tok h r2 s2 e where
      "login_ok rt s0 r1 s1 tok"
      "h = auth_headers rt tok"
      "send rt s1 (cred_request h) = (Response r2, s2)"
      "status_code r2 = 201"
      "resp_item r2 ''id'' = Inl e"
      "res = Inl (Error e)"
      "tr = seg_login r1 @ [Print ''[TEST] Creating Credential Profile...'', Http (cred_request h) (Response r2)]"
  | (disc_raised) r1 s1 tok h r2 s2 c e s3 where
      "login_ok rt s0 r1 s1 tok"
      "h = auth_headers rt tok"
      "created rt s1 (cred_request h) r2 s2 c"
      "send rt s2 (disc_request h c) = (Raised e, s3)"
      "res = Inl (Error e)"
      "tr = seg_login r1 @ seg_cred rt h r2 c @ [Print ''[TEST] Creating Discovery Profile...'', Http (disc_request h c) (Raised e)]"
  | (disc_status) r1 s1 tok h r2 s2 c r3 s3 where
      "login_ok rt s0 r1 s1 tok"
      "h = auth_headers rt tok"
      "created rt s1 (cred_request h) r2 s2 c"
      "send rt s2 (disc_request h c) = (Response r3, s3)"
      "status_code r3 \<noteq> 201"
      "res = Inl (SystemExit 1)"
      "tr = seg_login r1 @ seg_cred rt h r2 c @ [Print ''[TEST] Creating Discovery Profile...'', Http (disc_request h c) (Response r3), Print (''[TEST] FAILED: Create Discovery failed: '' @ resp_text r3)]"
  | (disc_id) r1 s1 tok h r2 s2 c r3 s3 e where
      "login_ok rt s0 r1 s1 tok"
      "h = auth_headers rt tok"
      "created rt s1 (cred_request h) r2 s2 c"
      "send rt s2 (disc_request h c) = (Response r3, s3)"
      "status_code r3 = 201"
      "resp_item r3 ''id'' = Inl e"
      "res = Inl (Error e)"
      "tr = seg_login r1 @ seg_cred rt h r2 c @ [Print ''[TEST] Creating Discovery Profile...'', Http (disc_request h c) (Response r3)]"
  | (mon_raised) r1 s1 tok h r2 s2 c r3 s3 d e s4 where
      "login_ok rt s0 r1 s1 tok"
      "h = auth_headers rt tok"
      "created rt s1 (cred_request h) r2 s2 c"
      "created rt s2 (disc_request h c) r3 s3 d"
      "send rt s3 (mon_request h c d) = (Raised e, s4)"
      "res = Inl (Error e)"
      "tr = seg_login r1 @ seg_cred rt h r2 c @ seg_disc rt h c r3 d @ [Print ''[TEST] Creating Monitor (Triggers: Add Monitor Flow)...'', Http (mon_request h c d) (Raised e)]"
  | (mon_status) r1 s1 tok h r2 s2 c r3 s3 d r4 s4 where
      "login_ok rt s0 r1 s1 tok"
      "h = auth_headers rt tok"
      "created rt s1 (cred_request h) r2 s2 c"
      "created rt s2 (disc_request h c) r3 s3 d"
      "send rt s3 (mon_request h c d) = (Response r4, s4)"
      "status_code r4 \<noteq> 201"
      "res = Inl (SystemExit 1)"
      "tr = seg_login r1 @ seg_cred rt h r2 c @ seg_disc rt h c r3 d @ [Print ''[TEST] Creating Monitor (Triggers: Add Monitor Flow)...'', Http (mon_request h c d) (Response r4), Print (''[TEST] FAILED: Create Monitor failed: '' @ resp_text r4)]"
  | (mon_id) r1 s1 tok h r2 s2 c r3 s3 d r4 s4 e where
      "login_ok rt s0 r1 s1 tok"
      "h = auth_headers rt tok"
      "created rt s1 (cred_request h) r2 s2 c"
      "created rt s2 (disc_request h c) r3 s3 d"
      "send rt s3 (mon_request h c d) = (Response r4, s4)"
      "status_code r4 = 201"
      "resp_item r4 ''id'' = Inl e"
      "res = Inl (Error e)"
      "tr = seg_login r1 @ seg_cred rt h r2 c @ seg_disc rt h c r3 d @ [Print ''[TEST] Creating Monitor (Triggers: Add Monitor Flow)...'', Http (mon_request h c d) (Response r4)]"
  | (upd_raised) r1 s1 tok h r2 s2 c r3 s3 d r4 s4 m e s5 where
      "login_ok rt s0 r1 s1 tok"
      "h = auth_headers rt tok"
      "created rt s1 (cred_request h) r2 s2 c"
      "created rt s2 (disc_request h c) r3 s3 d"
      "created rt s3 (mon_request h c d) r4 s4 m"
      "send rt s4 (upd_request rt h c) = (Raised e, s5)"
      "res = Inl (Error e)"
      "tr = seg_login r1 @ seg_cred rt h r2 c @ seg_disc rt h c r3 d @ seg_mon rt h c d r4 m @ [Print ''[TEST] Updating Credential (Triggers: Update Credential Flow)...'', Http (upd_request rt h c) (Raised e)]"
  | (upd_status) r1 s1 tok h r2 s2 c r3 s3 d r4 s4 m r5 s5 where
      "login_ok rt s0 r1 s1 tok"
      "h = auth_headers rt tok"
      "created rt s1 (cred_request h) r2 s2 c"
      "created rt s2 (disc_request h c) r3 s3 d"
      "created rt s3 (mon_request h c d) r4 s4 m"
      "send rt s4 (upd_request rt h c) = (Response r5, s5)"
      "status_code r5 \<noteq> 200"
      "res = Inl (SystemExit 1)"
      "tr = seg_login r1 @ seg_cred rt h r2 c @ seg_disc rt h c r3 d @ seg_mon rt h c d r4 m @ [Print ''[TEST] Updating Credential (Triggers: Update Credential Flow)...'', Http (upd_request rt h c) (Response r5), Print (''[TEST] FAILED: Update Credential failed: '' @ resp_text r5)]"
  | (del_raised) r1 s1 tok h r2 s2 c r3 s3 d r4 s4 m r5 s5 e s6 where
      "login_ok rt s0 r1 s1 tok"
      "h = auth_headers rt tok"
      "created rt s1 (cred_request h) r2 s2 c"
      "created rt s2 (disc_request h c) r3 s3 d"
      "created rt s3 (mon_request h c d) r4 s4 m"
      "answered rt s4 (upd_request rt h c) r5 s5 200"
      "send rt s5 (del_request rt h m) = (Raised e, s6)"
      "res = Inl (Error e)"
      "tr = seg_login r1 @ seg_cred rt h r2 c @ seg_disc rt h c r3 d @ seg_mon rt h c d r4 m @ seg_upd rt h c r5 @ [Print ''[TEST] Deleting Monitor (Triggers: Delete Monitor Flow)...'', Http (del_request rt h m) (Raised e)]"
  | (del_status) r1 s1 tok h r2 s2 c r3 s3 d r4 s4 m r5 s5 r6 s6 where
      "login_ok rt s0 r1 s1 tok"
      "h = auth_headers rt tok"
      "created rt s1 (cred_request h) r2 s2 c"
      "created rt s2 (disc_request h c) r3 s3 d"
      "created rt s3 (mon_request h c d) r4 s4 m"
      "answered rt s4 (upd_request rt h c) r5 s5 200"
      "send rt s5 (del_request rt h m) = (Response r6, s6)"
      "status_code r6 \<noteq> 204"
      "res = Inl (SystemExit 1)"
      "tr = seg_login r1 @ seg_cred rt h r2 c @ seg_disc rt h c r3 d @ seg_mon rt h c d r4 m @ seg_upd rt h c r5 @ [Print ''[TEST] Deleting Monitor (Triggers: Delete Monitor Flow)...'', Http (del_request rt h m) (Response r6), Print (''[TEST] FAILED: Delete Monitor failed: '' @ resp_text r6)]"
  | (success) r1 s1 tok h r2 s2 c r3 s3 d r4 s4 m r5 s5 r6 s6 where
      "login_ok rt s0 r1 s1 tok"
      "h = auth_headers rt tok"
      "created rt s1 (cred_request h) r2 s2 c"
      "created rt s2 (disc_request h c) r3 s3 d"
      "created rt s3 (mon_request h c d) r4 s4 m"
      "answered rt s4 (upd_request rt h c) r5 s5 200"
      "answered rt s5 (del_request rt h m) r6 s6 204"
      "res = Inr ()"
      "tr = seg_login r1 @ seg_cred rt h r2 c @ seg_disc rt h c r3 d @ seg_mon rt h c d r4 m @ seg_upd rt h c r5 @ seg_del rt h m r6"
proof -
  obtain w' where M: "main rt \<lparr>server = s0, trace = []\<rparr> = (res, w')" and T: "tr = trace w'"
    using assms by (auto simp add: run_def split: prod.splits)
  note M1 = M[unfolded main_def bnd_emit]
  from M1 show thesis
  proof (cases rule: bnd_login_cases)
    case (raised e s1)
    show thesis by (rule login_raised[OF raised(1,2)[simplified]]) (simp add: T raised(3))
  next
    case (status r1 s1)
    show thesis by (rule login_status[OF status(1,2,3)[simplified]]) (simp add: T status(4))
  next
    case (token r1 s1 e)
    show thesis by (rule login_token[OF token(1,2,3,4)[simplified]]) (simp add: T token(5))
  next
    case (ok r1 s1 tok)
    note L = ok(1)[simplified]
    from ok(2) show thesis
    proof (cases rule: bnd_create_credential_cases)
      case (raised e s2)
      show thesis by (rule cred_raised[OF L refl raised(1,2)[simplified]]) (simp add: T raised(3) seg_defs)
    next
      case (status r2 s2)
      show thesis by (rule cred_status[OF L refl status(1,2,3)[simplified]]) (simp add: T status(4) seg_defs)
    next
      case (id r2 s2 e)
      show thesis by (rule cred_id[OF L refl id(1,2,3,4)[simplified]]) (simp add: T id(5) seg_defs)
    next
      case (ok r2 s2 c)
      note C = ok(1)[simplified]
      from ok(2) show thesis
      proof (cases rule: bnd_create_discovery_cases)
        case (raised e s3)
        show thesis by (rule disc_raised[OF L refl C raised(1,2)[simplified]]) (simp add: T raised(3) seg_defs)
      next
        case (status r3 s3)
        show thesis by (rule disc_status[OF L refl C status(1,2,3)[simplified]]) (simp add: T status(4) seg_defs)
      next
        case (id r3 s3 e)
        show thesis by (rule disc_id[OF L refl C id(1,2,3,4)[simplified]]) (simp add: T id(5) seg_defs)
      next
        case (ok r3 s3 d)
        note D = ok(1)[simplified]
        from ok(2) show thesis
        proof (cases rule: bnd_create_monitor_cases)
          case (raised e s4)
          show thesis by (rule mon_raised[OF L refl C D raised(1,2)[simplified]]) (simp add: T raised(3) seg_defs)
        next
          case (status r4 s4)
          show thesis by (rule mon_status[OF L refl C D status(1,2,3)[simplified]]) (simp add: T status(4) seg_defs)
        next
          case (id r4 s4 e)
          show thesis by (rule mon_id[OF L refl C D id(1,2,3,4)[simplified]]) (simp add: T id(5) seg_defs)
        next
          case (ok r4 s4 m)
          note Mo = ok(1)[simplified]
          note K = ok(2)[unfolded bnd_sleep]
          from K show thesis
          proof (cases rule: bnd_update_credential_cases)
            case (raised e s5)
            show thesis by (rule upd_raised[OF L refl C D Mo raised(1,2)[simplified]]) (simp add: T raised(3) seg_defs)
          next
            case (status r5 s5)
            show thesis by (rule upd_status[OF L refl C D Mo status(1,2,3)[simplified]]) (simp add: T status(4) seg_defs)
          next
            case (ok r5 s5)
            note U = ok(1)[simplified]
            note K' = ok(2)[unfolded bnd_sleep]
            from K' show thesis
            proof (cases rule: bnd_delete_monitor_cases)
              case (raised e s6)
              show thesis by (rule del_raised[OF L refl C D Mo U raised(1,2)[simplified]]) (simp add: T raised(3) seg_defs)
            next
              case (status r6 s6)
              show thesis by (rule del_status[OF L refl C D Mo U status(1,2,3)[simplified]]) (simp add: T status(4) seg_defs)
            next
              case (ok r6 s6)
              from ok(2) have R: "res = Inr ()" and W: "trace w' = seg_login r1 @ seg_cred rt (auth_headers rt tok) r2 c @
                  seg_disc rt (auth_headers rt tok) c r3 d @ seg_mon rt (auth_headers rt tok) c d r4 m @
                  seg_upd rt (auth_headers rt tok) c r5 @ seg_del rt (auth_headers rt tok) m r6"
                by (auto simp add: bnd_sleep log_run seg_defs)
              show thesis by (rule success[OF L refl C D Mo U ok(1)[simplified] R]) (simp add: T W)
            qed
          qed
        qed
      qed
    qed
  qed
qed

section \<open>Reading the segments of a run\<close>

lemma exchanges_append: "exchanges (es @ fs) = exchanges es @ exchanges fs"
  by (induction es rule: exchanges.induct) simp_all

lemma statuses_append: "statuses (es @ fs) = statuses es @ statuses fs"
  by (induction es rule: statuses.induct) simp_all

lemma printed_append: "printed (es @ fs) = printed es @ printed fs"
  by (induction es rule: printed.induct) simp_all

lemma actions_append: "actions (es @ fs) = actions es @ actions fs"
  by (induction es rule: actions.induct) simp_all

lemmas obs_append = exchanges_append statuses_append printed_append actions_append

lemma exchanges_seg:
  "exchanges (seg_login r1) = [(login_request, Response r1)]"
  "exchanges (seg_cred rt h r2 c) = [(cred_request h, Response r2)]"
  "exchanges (seg_disc rt h c r3 d) = [(disc_request h c, Response r3)]"
  "exchanges (seg_mon rt h c d r4 m) = [(mon_request h c d, Response r4)]"
  "exchanges (seg_upd rt h c r5) = [(upd_request rt h c, Response r5)]"
  "exchanges (seg_del rt h m r6) = [(del_request rt h m, Response r6)]"
  by (simp_all add: seg_defs)

lemma statuses_seg:
  "statuses (seg_login r1) = [status_code r1]"
  "statuses (seg_cred rt h r2 c) = [status_code r2]"
  "statuses (seg_disc rt h c r3 d) = [status_code r3]"
  "statuses (seg_mon rt h c d r4 m) = [status_code r4]"
  "statuses (seg_upd rt h c r5) = [status_code r5]"
  "statuses (seg_del rt h m r6) = [status_code r6]"
  by (simp_all add: seg_defs)

lemma actions_seg:
  "actions (seg_login r1) = [Call POST]"
  "actions (seg_cred rt h r2 c) = [Call POST]"
  "actions (seg_disc rt h c r3 d) = [Call POST]"
  "actions (seg_mon rt h c d r4 m) = [Call POST, Wait 2]"
  "actions (seg_upd rt h c r5) = [Call PUT, Wait 2]"
  "actions (seg_del rt h m r6) = [Call DELETE, Wait 2]"
  by (simp_all add: seg_defs req_defs)

lemma printed_seg:
  "printed (seg_login r1) = [''[TEST] Logging in...'', ''[TEST] Login successful.'']"
  "printed (seg_cred rt h r2 c) =
     [''[TEST] Creating Credential Profile...'', ''[TEST] Credential created: '' @ str_json rt c]"
  "printed (seg_disc rt h c r3 d) =
     [''[TEST] Creating Discovery Profile...'', ''[TEST] Discovery profile created: '' @ str_json rt d]"
  "printed (seg_mon rt h c d r4 m) =
     [''[TEST] Creating Monitor (Triggers: Add Monitor Flow)...'', ''[TEST] Monitor created: '' @ str_json rt m]"
  "printed (seg_upd rt h c r5) =
     [''[TEST] Updating Credential (Triggers: Update Credential Flow)...'', ''[TEST] Credential updated.'']"
  "printed (seg_del rt h m r6) =
     [''[TEST] Deleting Monitor (Triggers: Delete Monitor Flow)...'', ''[TEST] Monitor deleted.'',
      ''[TEST] All steps completed successfully.'']"
  by (simp_all add: seg_defs)

lemma seg_nonempty:
  "seg_login r1 \<noteq> []" "seg_cred rt h r2 c \<noteq> []" "seg_disc rt h c r3 d \<noteq> []"
  "seg_mon rt h c d r4 m \<noteq> []" "seg_upd rt h c r5 \<noteq> []" "seg_del rt h m r6 \<noteq> []"
  by (simp_all add: seg_defs)

lemma credential_ref:
  "payload_field login_request ''credential_profile_id'' = None"
  "payload_field (cred_request h) ''credential_profile_id'' = None"
  "payload_field (disc_request h c) ''credential_profile_id'' = Some c"
  "payload_field (mon_request h c d) ''credential_profile_id'' = Some c"
  "payload_field (upd_request rt h c) ''credential_profile_id'' = None"
  "payload_field (del_request rt h m) ''credential_profile_id'' = None"
  by (simp_all add: payload_field_def req_defs login_payload_def cred_payload_def disc_payload_def
        mon_payload_def update_cred_payload_def)

lemma discovery_ref:
  "payload_field login_request ''discovery_profile_id'' = None"
  "payload_field (cred_request h) ''discovery_profile_id'' = None"
  "payload_field (disc_request h c) ''discovery_profile_id'' = None"
  "payload_field (mon_request h c d) ''discovery_profile_id'' = Some d"
  "payload_field (upd_request rt h c) ''discovery_profile_id'' = None"
  "payload_field (del_request rt h m) ''discovery_profile_id'' = None"
  by (simp_all add: payload_field_def req_defs login_payload_def cred_payload_def disc_payload_def
        mon_payload_def update_cred_payload_def)

lemma request_method:
  "http_method login_request = POST" "http_method (cred_request h) = POST"
  "http_method (disc_request h c) = POST" "http_method (mon_request h c d) = POST"
  "http_method (upd_request rt h c) = PUT" "http_method (del_request rt h m) = DELETE"
  by (simp_all add: req_defs)

lemma request_url:
  "url login_request = BASE_URL @ ''/login''"
  "url (cred_request h) = BASE_URL @ ''/credentials''"
  "url (disc_request h c) = BASE_URL @ ''/discoveries''"
  "url (mon_request h c d) = BASE_URL @ ''/monitors''"
  "url (upd_request rt h c) = BASE_URL @ ''/credentials/'' @ str_json rt c"
  "url (del_request rt h m) = BASE_URL @ ''/monitors/'' @ str_json rt m"
  by (simp_all add: req_defs)

lemma request_headers:
  "headers_kw login_request = None" "headers_kw (cred_request h) = Some h"
  "headers_kw (disc_request h c) = Some h" "headers_kw (mon_request h c d) = Some h"
  "headers_kw (upd_request rt h c) = Some h" "headers_kw (del_request rt h m) = Some h"
  by (simp_all add: req_defs)

lemma request_verify:
  "verify_kw login_request = False" "verify_kw (cred_request h) = False"
  "verify_kw (disc_request h c) = False" "verify_kw (mon_request h c d) = False"
  "verify_kw (upd_request rt h c) = False" "verify_kw (del_request rt h m) = False"
  by (simp_all add: req_defs)

lemma request_json:
  "json_kw login_request = Some login_payload" "json_kw (cred_request h) = Some cred_payload"
  "json_kw (disc_request h c) = Some (disc_payload c)"
  "json_kw (mon_request h c d) = Some (mon_payload c d)"
  "json_kw (upd_request rt h c) = Some update_cred_payload" "json_kw (del_request rt h m) = None"
  by (simp_all add: req_defs)

lemmas request_simps = request_method request_url request_headers request_verify request_json

lemma payload_keys:
  "keys login_payload = [''username'', ''password'']"
  "keys cred_payload = [''name'', ''description'', ''protocol'', ''payload'']"
  "keys update_cred_payload = [''name'', ''description'', ''protocol'', ''payload'']"
  "keys (disc_payload c) = [''name'', ''target_value'', ''credential_profile_id'', ''port'', ''auto_run'']"
  "keys (mon_payload c d) = [''ip_address'', ''plugin_id'', ''credential_profile_id'',
     ''discovery_profile_id'', ''polling_interval_seconds'', ''status'']"
  by (simp_all add: login_payload_def cred_payload_def update_cred_payload_def disc_payload_def
        mon_payload_def)

lemma last_seg_del: "last (seg_del rt h m r6) = Print ''[TEST] All steps completed successfully.''"
  by (simp add: seg_del_def)

lemmas obs = obs_append exchanges_seg request_simps ok_defs All_less_Suc Ex_less_Suc

section \<open>The runs against the example server\<close>

lemmas demo_defs = demo_rt_def demo_send_def demo_error_def demo_headers_def

lemma demo_run_ok: "run (demo_rt None) 0 = (Inr (), demo_trace)"
  by (simp add: run_def main_def step_defs exec exec_try bnd_try demo_defs demo_trace_def seg_defs req_defs
      resp_item_def numeral_2_eq_2 numeral_3_eq_3 eval_nat_numeral)


lemmas demo_eval = run_def main_def step_defs exec exec_try bnd_try demo_defs seg_defs req_defs
  resp_item_def eval_nat_numeral

lemma demo_run_login_500: "run (demo_rt (Some 0)) 0 = (Inl (SystemExit 1), demo_trace_login_500)"
  by (simp add: demo_eval demo_trace_login_500_def)

lemma demo_run_cred_500: "run (demo_rt (Some 1)) 0 = (Inl (SystemExit 1), demo_trace_cred_500)"
  by (simp add: demo_eval demo_trace_cred_500_def)

lemma demo_run_mon_500: "run (demo_rt (Some 3)) 0 = (Inl (SystemExit 1), demo_trace_mon_500)"
  by (simp add: demo_eval demo_trace_mon_500_def)


lemma demo_run_del_500: "run (demo_rt (Some 5)) 0 = (Inl (SystemExit 1), demo_trace_del_500)"
  by (simp add: demo_eval demo_trace_del_500_def)

lemma demo_exchanges:
  "exchanges demo_trace =
     [(login_request, Response (demo_resp 0)),
      (cred_request demo_headers, Response (demo_resp 1)),
      (disc_request demo_headers (JStr ''cred-1''), Response (demo_resp 2)),
      (mon_request demo_headers (JStr ''cred-1'') (JStr ''disc-1''), Response (demo_resp 3)),
      (upd_request (demo_rt None) demo_headers (JStr ''cred-1''), Response (demo_resp 4)),
      (del_request (demo_rt None) demo_headers (JStr ''mon-1''), Response (demo_resp 5))]"
  by (simp add: demo_trace_def obs_append exchanges_seg)

lemma demo_exchanges_login_500:
  "exchanges demo_trace_login_500 = [(login_request, Response demo_error)]"
  by (simp add: demo_trace_login_500_def)

lemma demo_exchanges_cred_500:
  "exchanges demo_trace_cred_500 =
     [(login_request, Response (demo_resp 0)), (cred_request demo_headers, Response demo_error)]"
  by (simp add: demo_trace_cred_500_def obs_append exchanges_seg)

lemma demo_exchanges_mon_500:
  "exchanges demo_trace_mon_500 =
     [(login_request, Response (demo_resp 0)),
      (cred_request demo_headers, Response (demo_resp 1)),
      (disc_request demo_headers (JStr ''cred-1''), Response (demo_resp 2)),
      (mon_request demo_headers (JStr ''cred-1'') (JStr ''disc-1''), Response demo_error)]"
  by (simp add: demo_trace_mon_500_def obs_append exchanges_seg)


lemma demo_exchanges_del_500:
  "exchanges demo_trace_del_500 =
     [(login_request, Response (demo_resp 0)),
      (cred_request demo_headers, Response (demo_resp 1)),
      (disc_request demo_headers (JStr ''cred-1''), Response (demo_resp 2)),
      (mon_request demo_headers (JStr ''cred-1'') (JStr ''disc-1''), Response (demo_resp 3)),
      (upd_request (demo_rt (Some 5)) demo_headers (JStr ''cred-1''), Response (demo_resp 4)),
      (del_request (demo_rt (Some 5)) demo_headers (JStr ''mon-1''), Response demo_error)]"
  by (simp add: demo_trace_del_500_def obs_append exchanges_seg)

lemma demo_status:
  "status_code (demo_resp 0) = 200" "status_code (demo_resp 1) = 201"
  "status_code (demo_resp 2) = 201" "status_code (demo_resp 3) = 201"
  "status_code (demo_resp 4) = 200" "status_code (demo_resp 5) = 204"
  "status_code demo_error = 500" "resp_text demo_error = ''Internal Server Error''"
  by (simp_all add: eval_nat_numeral demo_error_def)

lemma demo_fields:
  "reply_field (Response (demo_resp 0)) ''token'' = Some (JStr ''t0k3n'')"
  "reply_field (Response (demo_resp 1)) ''id'' = Some (JStr ''cred-1'')"
  "reply_field (Response (demo_resp 2)) ''id'' = Some (JStr ''disc-1'')"
  "reply_field (Response (demo_resp 3)) ''id'' = Some (JStr ''mon-1'')"
  "reply_field (Response demo_error) k = None"
  by (simp_all add: eval_nat_numeral resp_item_def demo_error_def)

lemmas demo_obs = demo_status demo_fields resp_item_def eval_nat_numeral demo_error_def

section \<open>The API: its endpoints and the run of the script against it\<close>

lemma strip_prefix_append: "strip_prefix p (p @ r) = Some r"
  by (induction p) simp_all

lemmas api_defs = api_send_def api_handle_def api_login_def authorized_def api_create_credential_def
  api_update_credential_def api_create_discovery_def api_create_monitor_def api_delete_monitor_def
  credential_shape_def discovery_valid_def monitor_valid_def has_fields_def answer_def

lemma api_login_endpoint:
  assumes "http_method q = POST" "url q = BASE_URL @ ''/login''" "json_kw q = Some j"
    "has_fields j [''username'', ''password'']"
  shows "\<exists>r s'. api_send a s q = (Response r, s') \<and> status_code r = 200 \<and>
           reply_field (Response r) ''token'' = Some (JStr (token_of a (counter s)))"
  using assms
  by (simp add: api_send_def api_handle_def api_login_def answer_def strip_prefix_append resp_item_def)


lemma with_id_item: "has_fields j (k # ks) \<Longrightarrow> getitem (with_id i j) ''id'' = Inr (JStr i)"
  by (cases j) (simp_all add: has_fields_def)

lemma api_monitor_endpoint:
  assumes "authorized s q" "http_method q = POST" "url q = BASE_URL @ ''/monitors''"
    "json_kw q = Some j" "monitor_valid s j"
  shows "\<exists>r s'. api_send a s q = (Response r, s') \<and> status_code r = 201 \<and>
           reply_field (Response r) ''id'' = Some (JStr (id_of a (counter s))) \<and>
           triggered s' = triggered s @ [OnMonitorCreated (id_of a (counter s))]"
proof -
  from assms(5) have "getitem (with_id (id_of a (counter s)) j) ''id'' = Inr (JStr (id_of a (counter s)))"
    unfolding monitor_valid_def by (blast intro: with_id_item)
  with assms show ?thesis
    by (simp add: api_send_def api_handle_def api_create_monitor_def answer_def strip_prefix_append
          resp_item_def)
qed

lemma api_delete_endpoint:
  assumes "authorized s q" "http_method q = DELETE" "url q = BASE_URL @ ''/monitors/'' @ i"
    "map_of (monitors s) i \<noteq> None"
  shows "\<exists>r s'. api_send a s q = (Response r, s') \<and> status_code r = 204 \<and> resp_json r = None \<and>
           triggered s' = triggered s @ [OnMonitorDeleted i]"
  using assms
  by (auto simp add: api_send_def api_handle_def api_delete_monitor_def answer_def strip_prefix_append)


lemma payload_shapes:
  "has_fields login_payload [''username'', ''password'']"
  "credential_shape cred_payload"
  "credential_shape update_cred_payload"
  by (simp_all add: has_fields_def credential_shape_def login_payload_def cred_payload_def
        update_cred_payload_def)

lemma mon_payload_valid:
  "refers (credentials s) c \<Longrightarrow> refers (discoveries s) d \<Longrightarrow> monitor_valid s (mon_payload c d)"
  by (simp add: monitor_valid_def has_fields_def mon_payload_def)

lemma api_main:
  assumes "\<And>s. f (JStr s) = s"
  shows "\<exists>w. main (api_rt a f g) \<lparr>server = api_init, trace = []\<rparr> = (Inr (), w) \<and>
           length (exchanges (trace w)) = 6 \<and>
           fst (exchanges (trace w) ! 0) = login_request \<and>
           snd (exchanges (trace w) ! 0) =
             Response (answer a 200 (Some (JDict [(''token'', JStr (token_of a 0))]))) \<and>
           fst (exchanges (trace w) ! 1) = cred_request [(''Authorization'', ''Bearer '' @ token_of a 0)] \<and>
           snd (exchanges (trace w) ! 1) =
             Response (answer a 201 (Some (with_id (id_of a 1) cred_payload))) \<and>
           fst (exchanges (trace w) ! 3) =
             mon_request [(''Authorization'', ''Bearer '' @ token_of a 0)] (JStr (id_of a 1)) (JStr (id_of a 2)) \<and>
           snd (exchanges (trace w) ! 3) =
             Response (answer a 201 (Some (with_id (id_of a 3) (mon_payload (JStr (id_of a 1)) (JStr (id_of a 2)))))) \<and>
           fst (exchanges (trace w) ! 4) =
             \<lparr>http_method = PUT, url = BASE_URL @ ''/credentials/'' @ id_of a 1,
              json_kw = Some update_cred_payload,
              headers_kw = Some [(''Authorization'', ''Bearer '' @ token_of a 0)], verify_kw = False\<rparr> \<and>
           snd (exchanges (trace w) ! 4) =
             Response (answer a 200 (Some (with_id (id_of a 1) update_cred_payload))) \<and>
           fst (exchanges (trace w) ! 5) =
             \<lparr>http_method = DELETE, url = BASE_URL @ ''/monitors/'' @ id_of a 3, json_kw = None,
              headers_kw = Some [(''Authorization'', ''Bearer '' @ token_of a 0)], verify_kw = False\<rparr> \<and>
           snd (exchanges (trace w) ! 5) = Response (answer a 204 None) \<and>
           triggered (server w) =
             [OnMonitorCreated (id_of a 3), OnCredentialUpdated (id_of a 1), OnMonitorDeleted (id_of a 3)]"
  by (simp add: main_def step_defs exec exec_try bnd_try api_rt_def api_init_def api_defs
        strip_prefix_append resp_item_def assms req_defs
        login_payload_def cred_payload_def disc_payload_def mon_payload_def update_cred_payload_def
        eval_nat_numeral)

lemma api_run_facts:
  assumes "\<And>s. f (JStr s) = s"
  shows "\<exists>w. main (api_rt a f g) \<lparr>server = api_init, trace = []\<rparr> = (Inr (), w) \<and>
           length (exchanges (trace w)) = 6 \<and>
           fst (exchanges (trace w) ! 0) = login_request \<and>
           status_of (snd (exchanges (trace w) ! 0)) = Some 200 \<and>
           reply_field (snd (exchanges (trace w) ! 0)) ''token'' = Some (JStr (token_of a 0)) \<and>
           status_of (snd (exchanges (trace w) ! 1)) = Some 201 \<and>
           reply_field (snd (exchanges (trace w) ! 1)) ''id'' = Some (JStr (id_of a 1)) \<and>
           http_method (fst (exchanges (trace w) ! 3)) = POST \<and>
           url (fst (exchanges (trace w) ! 3)) = BASE_URL @ ''/monitors'' \<and>
           status_of (snd (exchanges (trace w) ! 3)) = Some 201 \<and>
           reply_field (snd (exchanges (trace w) ! 3)) ''id'' = Some (JStr (id_of a 3)) \<and>
           http_method (fst (exchanges (trace w) ! 4)) = PUT \<and>
           url (fst (exchanges (trace w) ! 4)) = BASE_URL @ ''/credentials/'' @ id_of a 1 \<and>
           json_kw (fst (exchanges (trace w) ! 4)) = Some update_cred_payload \<and>
           status_of (snd (exchanges (trace w) ! 4)) = Some 200 \<and>
           http_method (fst (exchanges (trace w) ! 5)) = DELETE \<and>
           url (fst (exchanges (trace w) ! 5)) = BASE_URL @ ''/monitors/'' @ id_of a 3 \<and>
           json_kw (fst (exchanges (trace w) ! 5)) = None \<and>
           status_of (snd (exchanges (trace w) ! 5)) = Some 204 \<and>
           reply_field (snd (exchanges (trace w) ! 5)) ''id'' = None \<and>
           triggered (server w) =
             [OnMonitorCreated (id_of a 3), OnCredentialUpdated (id_of a 1), OnMonitorDeleted (id_of a 3)]"
proof -
  from api_main[OF assms, of a g] obtain w where
    m: "main (api_rt a f g) \<lparr>server = api_init, trace = []\<rparr> = (Inr (), w)"
    and l: "length (exchanges (trace w)) = 6"
    and q0: "fst (exchanges (trace w) ! 0) = login_request"
    and r0: "snd (exchanges (trace w) ! 0) =
             Response (answer a 200 (Some (JDict [(''token'', JStr (token_of a 0))])))"
    and r1: "snd (exchanges (trace w) ! 1) =
             Response (answer a 201 (Some (with_id (id_of a 1) cred_payload)))"
    and q3: "fst (exchanges (trace w) ! 3) =
             mon_request [(''Authorization'', ''Bearer '' @ token_of a 0)] (JStr (id_of a 1)) (JStr (id_of a 2))"
    and r3: "snd (exchanges (trace w) ! 3) =
             Response (answer a 201 (Some (with_id (id_of a 3) (mon_payload (JStr (id_of a 1)) (JStr (id_of a 2))))))"
    and q4: "fst (exchanges (trace w) ! 4) =
             \<lparr>http_method = PUT, url = BASE_URL @ ''/credentials/'' @ id_of a 1,
              json_kw = Some update_cred_payload,
              headers_kw = Some [(''Authorization'', ''Bearer '' @ token_of a 0)], verify_kw = False\<rparr>"
    and r4: "snd (exchanges (trace w) ! 4) =
             Response (answer a 200 (Some (with_id (id_of a 1) update_cred_payload)))"
    and q5: "fst (exchanges (trace w) ! 5) =
             \<lparr>http_method = DELETE, url = BASE_URL @ ''/monitors/'' @ id_of a 3, json_kw = None,
              headers_kw = Some [(''Authorization'', ''Bearer '' @ token_of a 0)], verify_kw = False\<rparr>"
    and r5: "snd (exchanges (trace w) ! 5) = Response (answer a 204 None)"
    and t: "triggered (server w) =
             [OnMonitorCreated (id_of a 3), OnCredentialUpdated (id_of a 1), OnMonitorDeleted (id_of a 3)]"
    by blast
  have "reply_field (Response (answer a 201 (Some (with_id (id_of a 1) cred_payload)))) ''id'' =
          Some (JStr (id_of a 1))"
    and "reply_field (Response (answer a 201 (Some (with_id (id_of a 3)
            (mon_payload (JStr (id_of a 1)) (JStr (id_of a 2))))))) ''id'' = Some (JStr (id_of a 3))"
    and "reply_field (Response (answer a 200 (Some (JDict [(''token'', JStr (token_of a 0))])))) ''token'' =
          Some (JStr (token_of a 0))"
    and "reply_field (Response (answer a 204 None)) ''id'' = None"
    by (simp_all add: answer_def resp_item_def cred_payload_def mon_payload_def)
  with m l q0 r0 r1 q3 r3 q4 r4 q5 r5 t show ?thesis
    by (intro exI[of _ w]) (simp add: answer_def request_simps)
qed

section \<open>The claims\<close>

text \<open>
  Claim C1. The three creation requests are issued in the order credential, discovery,
  monitor, after the login. The discovery request carries a \<open>credential_profile_id\<close> and
  the monitor request carries a \<open>credential_profile_id\<close> and a \<open>discovery_profile_id\<close>.
  At every request of a run, a \<open>credential_profile_id\<close> in its body is the \<open>id\<close> of an
  earlier response with status 201 to \<open>POST /credentials\<close>, and a \<open>discovery_profile_id\<close>
  in its body is the \<open>id\<close> of an earlier response with status 201 to \<open>POST /discoveries\<close>.
\<close>

theorem referential_integrity_by_creation_order:
  fixes rt :: "'s runtime"
  defines "cred_url \<equiv> BASE_URL @ ''/credentials''"
  defines "disc_url \<equiv> BASE_URL @ ''/discoveries''"
  assumes "run rt s0 = (res, tr)" and "xs = exchanges tr"
  shows "map (\<lambda>(q, r). (http_method q, url q)) (take 4 xs) =
           take (length xs) [(POST, BASE_URL @ ''/login''), (POST, cred_url), (POST, disc_url),
             (POST, BASE_URL @ ''/monitors'')] \<and>
         (2 < length xs \<longrightarrow> payload_field (fst (xs ! 2)) ''credential_profile_id'' \<noteq> None) \<and>
         (3 < length xs \<longrightarrow> payload_field (fst (xs ! 3)) ''credential_profile_id'' \<noteq> None \<and>
            payload_field (fst (xs ! 3)) ''discovery_profile_id'' \<noteq> None) \<and>
         (\<forall>i<length xs. \<forall>c. payload_field (fst (xs ! i)) ''credential_profile_id'' = Some c \<longrightarrow>
            (\<exists>j<i. http_method (fst (xs ! j)) = POST \<and> url (fst (xs ! j)) = cred_url \<and>
               status_of (snd (xs ! j)) = Some 201 \<and> reply_field (snd (xs ! j)) ''id'' = Some c)) \<and>
         (\<forall>i<length xs. \<forall>d. payload_field (fst (xs ! i)) ''discovery_profile_id'' = Some d \<longrightarrow>
            (\<exists>j<i. http_method (fst (xs ! j)) = POST \<and> url (fst (xs ! j)) = disc_url \<and>
               status_of (snd (xs ! j)) = Some 201 \<and> reply_field (snd (xs ! j)) ''id'' = Some d))"
  using assms(3) unfolding assms(4) cred_url_def disc_url_def
  by (cases rule: run_cases) (simp_all add: obs credential_ref discovery_ref)

theorem referential_integrity_by_creation_order_witness:
  "run (demo_rt None) 0 = (Inr (), demo_trace) \<and>
   payload_field (fst (exchanges demo_trace ! 3)) ''credential_profile_id'' = Some (JStr ''cred-1'') \<and>
   (\<exists>j<3. http_method (fst (exchanges demo_trace ! j)) = POST \<and>
      url (fst (exchanges demo_trace ! j)) = BASE_URL @ ''/credentials'' \<and>
      status_of (snd (exchanges demo_trace ! j)) = Some 201 \<and>
      reply_field (snd (exchanges demo_trace ! j)) ''id'' = Some (JStr ''cred-1''))"
proof -
  have len: "3 < length (exchanges demo_trace)"
    and pf: "payload_field (fst (exchanges demo_trace ! 3)) ''credential_profile_id'' = Some (JStr ''cred-1'')"
    by (simp_all add: demo_exchanges credential_ref)
  from referential_integrity_by_creation_order[OF demo_run_ok refl] len pf
  have "\<exists>j<3. http_method (fst (exchanges demo_trace ! j)) = POST \<and>
      url (fst (exchanges demo_trace ! j)) = BASE_URL @ ''/credentials'' \<and>
      status_of (snd (exchanges demo_trace ! j)) = Some 201 \<and>
      reply_field (snd (exchanges demo_trace ! j)) ''id'' = Some (JStr ''cred-1'')"
    by blast
  with pf demo_run_ok show ?thesis by blast
qed




text \<open>What the script does around \<open>POST /monitors\<close>, against any server.\<close>

lemma monitor_creation_script:
  assumes "run rt s0 = (res, tr)" and "xs = exchanges tr"
  shows "(3 < length xs \<longrightarrow>
            http_method (fst (xs ! 3)) = POST \<and> url (fst (xs ! 3)) = BASE_URL @ ''/monitors'' \<and>
            (\<exists>j. json_kw (fst (xs ! 3)) = Some j \<and>
               keys j = [''ip_address'', ''plugin_id'', ''credential_profile_id'', ''discovery_profile_id'',
                 ''polling_interval_seconds'', ''status'']) \<and>
            (status_of (snd (xs ! 3)) = Some 201 \<and> reply_field (snd (xs ! 3)) ''id'' \<noteq> None
               \<longleftrightarrow> 4 < length xs) \<and>
            (\<forall>resp. snd (xs ! 3) = Response resp \<and> status_code resp \<noteq> 201 \<longrightarrow>
               res = Inl (SystemExit 1) \<and> exit_code res = 1 \<and> length xs = 4 \<and>
               last tr = Print (''[TEST] FAILED: Create Monitor failed: '' @ resp_text resp))) \<and>
         (\<forall>i<length xs. 3 < i \<longrightarrow>
            (http_method (fst (xs ! i)) = PUT \<and>
               (\<exists>c. reply_field (snd (xs ! 1)) ''id'' = Some c \<and>
                  url (fst (xs ! i)) = BASE_URL @ ''/credentials/'' @ str_json rt c)) \<or>
            (\<exists>m. reply_field (snd (xs ! 3)) ''id'' = Some m \<and>
               fst (xs ! i) = \<lparr>http_method = DELETE, url = BASE_URL @ ''/monitors/'' @ str_json rt m,
                 json_kw = None, headers_kw = headers_kw (fst (xs ! 3)), verify_kw = False\<rparr>))"
  using assms(1) unfolding assms(2)
  by (cases rule: run_cases)
     (simp_all add: obs payload_keys del_request_def)

text \<open>
  Claim C3. Three parts. The script, against any server: the fourth request of a run is
  \<open>POST /monitors\<close> with a body of exactly the fields \<open>ip_address, plugin_id,
  credential_profile_id, discovery_profile_id, polling_interval_seconds, status\<close>; the
  script goes on exactly when the response has status 201 and a body with an \<open>id\<close>, and
  on a response with another status it prints the failure line and exits with code 1, with
  no further request; every later request is either the \<open>PUT\<close> on the credential or the
  \<open>DELETE\<close> of \<open>/monitors/{id}\<close> with the \<open>id\<close> this response returned. The API: in
  any state, an authorised \<open>POST /monitors\<close> with a valid body is answered 201 with the
  new \<open>id\<close> and triggers \<open>OnMonitorCreated(id)\<close>, and the body the script sends is valid
  when its two references exist. The script against the API, from the empty store: the run
  ends normally, the reply to its fourth request has status 201 and an \<open>id\<close>, the later
  \<open>DELETE\<close> goes to that id, and \<open>OnMonitorCreated\<close> of that id has been triggered.
\<close>

theorem monitor_creation_request:
  assumes "run rt s0 = (res, tr)" and "xs = exchanges tr"
  shows "((3 < length xs \<longrightarrow>
            http_method (fst (xs ! 3)) = POST \<and> url (fst (xs ! 3)) = BASE_URL @ ''/monitors'' \<and>
            (\<exists>j. json_kw (fst (xs ! 3)) = Some j \<and>
               keys j = [''ip_address'', ''plugin_id'', ''credential_profile_id'', ''discovery_profile_id'',
                 ''polling_interval_seconds'', ''status'']) \<and>
            (status_of (snd (xs ! 3)) = Some 201 \<and> reply_field (snd (xs ! 3)) ''id'' \<noteq> None
               \<longleftrightarrow> 4 < length xs) \<and>
            (\<forall>resp. snd (xs ! 3) = Response resp \<and> status_code resp \<noteq> 201 \<longrightarrow>
               res = Inl (SystemExit 1) \<and> exit_code res = 1 \<and> length xs = 4 \<and>
               last tr = Print (''[TEST] FAILED: Create Monitor failed: '' @ resp_text resp))) \<and>
         (\<forall>i<length xs. 3 < i \<longrightarrow>
            (http_method (fst (xs ! i)) = PUT \<and>
               (\<exists>c. reply_field (snd (xs ! 1)) ''id'' = Some c \<and>
                  url (fst (xs ! i)) = BASE_URL @ ''/credentials/'' @ str_json rt c)) \<or>
            (\<exists>m. reply_field (snd (xs ! 3)) ''id'' = Some m \<and>
               fst (xs ! i) = \<lparr>http_method = DELETE, url = BASE_URL @ ''/monitors/'' @ str_json rt m,
                 json_kw = None, headers_kw = headers_kw (fst (xs ! 3)), verify_kw = False\<rparr>))) \<and>
         ((\<forall>a s q j. authorized s q \<and> http_method q = POST \<and> url q = BASE_URL @ ''/monitors'' \<and>
             json_kw q = Some j \<and> monitor_valid s j \<longrightarrow>
             (\<exists>r s'. api_send a s q = (Response r, s') \<and> status_code r = 201 \<and>
                reply_field (Response r) ''id'' = Some (JStr (id_of a (counter s))) \<and>
                triggered s' = triggered s @ [OnMonitorCreated (id_of a (counter s))])) \<and>
          (\<forall>s c d. refers (credentials s) c \<and> refers (discoveries s) d \<longrightarrow>
             monitor_valid s (mon_payload c d))) \<and>
         (\<forall>a f g. (\<forall>s. f (JStr s) = s) \<longrightarrow>
             (\<exists>w. main (api_rt a f g) \<lparr>server = api_init, trace = []\<rparr> = (Inr (), w) \<and>
                http_method (fst (exchanges (trace w) ! 3)) = POST \<and>
                url (fst (exchanges (trace w) ! 3)) = BASE_URL @ ''/monitors'' \<and>
                status_of (snd (exchanges (trace w) ! 3)) = Some 201 \<and>
                reply_field (snd (exchanges (trace w) ! 3)) ''id'' = Some (JStr (id_of a 3)) \<and>
                url (fst (exchanges (trace w) ! 5)) = BASE_URL @ ''/monitors/'' @ id_of a 3 \<and>
                OnMonitorCreated (id_of a 3) \<in> set (triggered (server w))))"
proof -
  have script: "(3 < length xs \<longrightarrow>
            http_method (fst (xs ! 3)) = POST \<and> url (fst (xs ! 3)) = BASE_URL @ ''/monitors'' \<and>
            (\<exists>j. json_kw (fst (xs ! 3)) = Some j \<and>
               keys j = [''ip_address'', ''plugin_id'', ''credential_profile_id'', ''discovery_profile_id'',
                 ''polling_interval_seconds'', ''status'']) \<and>
            (status_of (snd (xs ! 3)) = Some 201 \<and> reply_field (snd (xs ! 3)) ''id'' \<noteq> None
               \<longleftrightarrow> 4 < length xs) \<and>
            (\<forall>resp. snd (xs ! 3) = Response resp \<and> status_code resp \<noteq> 201 \<longrightarrow>
               res = Inl (SystemExit 1) \<and> exit_code res = 1 \<and> length xs = 4 \<and>
               last tr = Print (''[TEST] FAILED: Create Monitor failed: '' @ resp_text resp))) \<and>
         (\<forall>i<length xs. 3 < i \<longrightarrow>
            (http_method (fst (xs ! i)) = PUT \<and>
               (\<exists>c. reply_field (snd (xs ! 1)) ''id'' = Some c \<and>
                  url (fst (xs ! i)) = BASE_URL @ ''/credentials/'' @ str_json rt c)) \<or>
            (\<exists>m. reply_field (snd (xs ! 3)) ''id'' = Some m \<and>
               fst (xs ! i) = \<lparr>http_method = DELETE, url = BASE_URL @ ''/monitors/'' @ str_json rt m,
                 json_kw = None, headers_kw = headers_kw (fst (xs ! 3)), verify_kw = False\<rparr>))"
    by (rule monitor_creation_script[OF assms])
  have endpoint: "(\<forall>a s q j. authorized s q \<and> http_method q = POST \<and> url q = BASE_URL @ ''/monitors'' \<and>
             json_kw q = Some j \<and> monitor_valid s j \<longrightarrow>
             (\<exists>r s'. api_send a s q = (Response r, s') \<and> status_code r = 201 \<and>
                reply_field (Response r) ''id'' = Some (JStr (id_of a (counter s))) \<and>
                triggered s' = triggered s @ [OnMonitorCreated (id_of a (counter s))])) \<and>
          (\<forall>s c d. refers (credentials s) c \<and> refers (discoveries s) d \<longrightarrow>
             monitor_valid s (mon_payload c d))"
  proof (intro conjI allI impI; (elim conjE)?)
    fix a :: api and s :: api_state and q :: request and j
    assume h: "authorized s q" "http_method q = POST" "url q = BASE_URL @ ''/monitors''"
      "json_kw q = Some j" "monitor_valid s j"
    show "\<exists>r s'. api_send a s q = (Response r, s') \<and> status_code r = 201 \<and>
            reply_field (Response r) ''id'' = Some (JStr (id_of a (counter s))) \<and>
            triggered s' = triggered s @ [OnMonitorCreated (id_of a (counter s))]"
      by (rule api_monitor_endpoint[OF h])
  next
    fix s :: api_state and c d
    assume "refers (credentials s) c" "refers (discoveries s) d"
    then show "monitor_valid s (mon_payload c d)" by (rule mon_payload_valid)
  qed
  have against_api: "\<forall>a f g. (\<forall>s. f (JStr s) = s) \<longrightarrow>
             (\<exists>w. main (api_rt a f g) \<lparr>server = api_init, trace = []\<rparr> = (Inr (), w) \<and>
                http_method (fst (exchanges (trace w) ! 3)) = POST \<and>
                url (fst (exchanges (trace w) ! 3)) = BASE_URL @ ''/monitors'' \<and>
                status_of (snd (exchanges (trace w) ! 3)) = Some 201 \<and>
                reply_field (snd (exchanges (trace w) ! 3)) ''id'' = Some (JStr (id_of a 3)) \<and>
                url (fst (exchanges (trace w) ! 5)) = BASE_URL @ ''/monitors/'' @ id_of a 3 \<and>
                OnMonitorCreated (id_of a 3) \<in> set (triggered (server w)))"
  proof (intro allI impI)
    fix a :: api and f g
    assume "\<forall>s. f (JStr s) = s"
    then have "\<And>s. f (JStr s) = s" by blast
    from api_run_facts[OF this, of a g]
    show "\<exists>w. main (api_rt a f g) \<lparr>server = api_init, trace = []\<rparr> = (Inr (), w) \<and>
                http_method (fst (exchanges (trace w) ! 3)) = POST \<and>
                url (fst (exchanges (trace w) ! 3)) = BASE_URL @ ''/monitors'' \<and>
                status_of (snd (exchanges (trace w) ! 3)) = Some 201 \<and>
                reply_field (snd (exchanges (trace w) ! 3)) ''id'' = Some (JStr (id_of a 3)) \<and>
                url (fst (exchanges (trace w) ! 5)) = BASE_URL @ ''/monitors/'' @ id_of a 3 \<and>
                OnMonitorCreated (id_of a 3) \<in> set (triggered (server w))"
      by clarsimp
  qed
  show ?thesis by (rule conjI[OF script conjI[OF endpoint against_api]])
qed

theorem monitor_creation_request_witness:
  "run (demo_rt None) 0 = (Inr (), demo_trace) \<and>
   reply_field (snd (exchanges demo_trace ! 3)) ''id'' = Some (JStr ''mon-1'') \<and>
   url (fst (exchanges demo_trace ! 5)) = BASE_URL @ ''/monitors/mon-1'' \<and>
   run (demo_rt (Some 3)) 0 = (Inl (SystemExit 1), demo_trace_mon_500) \<and>
   snd (exchanges demo_trace_mon_500 ! 3) = Response demo_error \<and>
   length (exchanges demo_trace_mon_500) = 4 \<and>
   (\<exists>r s'. api_send demo_api demo_state (mon_request demo_headers (JStr ''cred-1'') (JStr ''disc-1'')) = (Response r, s') \<and> status_code r = 201 \<and>
      reply_field (Response r) ''id'' = Some (JStr (id_of demo_api (counter demo_state))) \<and>
      triggered s' = triggered demo_state @ [OnMonitorCreated (id_of demo_api (counter demo_state))]) \<and>
   (\<exists>w. main (api_rt demo_api demo_str (\<lambda>e. ''error'')) \<lparr>server = api_init, trace = []\<rparr> =
        (Inr (), w) \<and>
      status_of (snd (exchanges (trace w) ! 3)) = Some 201 \<and>
      reply_field (snd (exchanges (trace w) ! 3)) ''id'' = Some (JStr ''mon-1'') \<and>
      OnMonitorCreated ''mon-1'' \<in> set (triggered (server w)))"
proof -
  have ok: "5 < length (exchanges demo_trace)" "(3::nat) < 5"
      "http_method (fst (exchanges demo_trace ! 5)) \<noteq> PUT"
      "reply_field (snd (exchanges demo_trace ! 3)) ''id'' = Some (JStr ''mon-1'')"
    by (simp_all add: demo_exchanges demo_obs request_simps)
  from monitor_creation_request[THEN conjunct1, OF demo_run_ok refl] ok
  obtain m where "reply_field (snd (exchanges demo_trace ! 3)) ''id'' = Some m"
    and "fst (exchanges demo_trace ! 5) =
           \<lparr>http_method = DELETE, url = BASE_URL @ ''/monitors/'' @ str_json (demo_rt None) m,
            json_kw = None, headers_kw = headers_kw (fst (exchanges demo_trace ! 3)), verify_kw = False\<rparr>"
    by blast
  with ok have a: "url (fst (exchanges demo_trace ! 5)) = BASE_URL @ ''/monitors/mon-1''"
    by (simp add: demo_rt_def)
  have bad: "3 < length (exchanges demo_trace_mon_500)"
      "snd (exchanges demo_trace_mon_500 ! 3) = Response demo_error" "status_code demo_error \<noteq> 201"
    by (simp_all add: demo_exchanges_mon_500 demo_status)
  from monitor_creation_request[THEN conjunct1, OF demo_run_mon_500 refl] bad
  have b: "length (exchanges demo_trace_mon_500) = 4" by blast
  have script: "run (demo_rt None) 0 = (Inr (), demo_trace) \<and>
   reply_field (snd (exchanges demo_trace ! 3)) ''id'' = Some (JStr ''mon-1'') \<and>
   url (fst (exchanges demo_trace ! 5)) = BASE_URL @ ''/monitors/mon-1'' \<and>
   run (demo_rt (Some 3)) 0 = (Inl (SystemExit 1), demo_trace_mon_500) \<and>
   snd (exchanges demo_trace_mon_500 ! 3) = Response demo_error \<and>
   length (exchanges demo_trace_mon_500) = 4"
    using a b ok bad demo_run_ok demo_run_mon_500 by blast
  have "authorized demo_state (mon_request demo_headers (JStr ''cred-1'') (JStr ''disc-1'')) \<and> http_method (mon_request demo_headers (JStr ''cred-1'') (JStr ''disc-1'')) = POST \<and> url (mon_request demo_headers (JStr ''cred-1'') (JStr ''disc-1'')) = BASE_URL @ ''/monitors'' \<and>
      json_kw (mon_request demo_headers (JStr ''cred-1'') (JStr ''disc-1'')) = Some (mon_payload (JStr ''cred-1'') (JStr ''disc-1'')) \<and>
      monitor_valid demo_state (mon_payload (JStr ''cred-1'') (JStr ''disc-1''))"
    by (simp add: authorized_def demo_state_def demo_headers_def demo_rt_def request_simps payload_shapes api_init_def mon_payload_valid)
  from monitor_creation_request[OF demo_run_ok refl, THEN conjunct2, THEN conjunct1, THEN conjunct1, rule_format, OF this, where a = demo_api]
  have endpoint: "\<exists>r s'. api_send demo_api demo_state (mon_request demo_headers (JStr ''cred-1'') (JStr ''disc-1'')) = (Response r, s') \<and> status_code r = 201 \<and>
      reply_field (Response r) ''id'' = Some (JStr (id_of demo_api (counter demo_state))) \<and>
      triggered s' = triggered demo_state @ [OnMonitorCreated (id_of demo_api (counter demo_state))]"
    by blast
  from monitor_creation_request[OF demo_run_ok refl, THEN conjunct2, THEN conjunct2, rule_format, OF demo_str.simps(1),
      of demo_api "\<lambda>e. ''error''"]
  have against_api: "\<exists>w. main (api_rt demo_api demo_str (\<lambda>e. ''error'')) \<lparr>server = api_init, trace = []\<rparr> =
        (Inr (), w) \<and>
      status_of (snd (exchanges (trace w) ! 3)) = Some 201 \<and>
      reply_field (snd (exchanges (trace w) ! 3)) ''id'' = Some (JStr ''mon-1'') \<and>
      OnMonitorCreated ''mon-1'' \<in> set (triggered (server w))"
    by (clarsimp simp add: demo_api_def)
  from script endpoint against_api show ?thesis by blast
qed

text \<open>What the script does around its \<open>DELETE\<close>, against any server.\<close>

lemma monitor_deletion_script:
  assumes "run rt s0 = (res, tr)" and "xs = exchanges tr"
  shows "(\<forall>i<length xs. http_method (fst (xs ! i)) = DELETE \<longrightarrow> i = 5) \<and>
         (5 < length xs \<longrightarrow>
            (\<exists>m h. http_method (fst (xs ! 3)) = POST \<and> url (fst (xs ! 3)) = BASE_URL @ ''/monitors'' \<and>
               status_of (snd (xs ! 3)) = Some 201 \<and> reply_field (snd (xs ! 3)) ''id'' = Some m \<and>
               fst (xs ! 5) = \<lparr>http_method = DELETE, url = BASE_URL @ ''/monitors/'' @ str_json rt m,
                 json_kw = None, headers_kw = Some h, verify_kw = False\<rparr>) \<and>
            (status_of (snd (xs ! 5)) = Some 204 \<longrightarrow>
               res = Inr () \<and> ''[TEST] Monitor deleted.'' \<in> set (printed tr)) \<and>
            (\<forall>resp. snd (xs ! 5) = Response resp \<and> status_code resp \<noteq> 204 \<longrightarrow>
               res = Inl (SystemExit 1) \<and> exit_code res = 1 \<and>
               last tr = Print (''[TEST] FAILED: Delete Monitor failed: '' @ resp_text resp)))"
  using assms(1) unfolding assms(2)
  by (cases rule: run_cases)
     (simp_all add: obs printed_append printed_seg del_request_def)

text \<open>
  Claim C4. Three parts. The script, against any server: the only \<open>DELETE\<close> of a run is
  its sixth request; it goes to \<open>/monitors/{id}\<close> with the \<open>id\<close> that the response with
  status 201 to \<open>POST /monitors\<close> returned, and sends no body; a response with status 204
  lets the run end normally whatever its body is, and on a response with another status the
  script prints the failure line and exits with code 1. The API: in any state, an
  authorised \<open>DELETE /monitors/{id}\<close> of a stored monitor is answered 204 with no body and
  triggers \<open>OnMonitorDeleted(id)\<close>. The script against the API, from the empty store: the
  run ends normally, its sixth request is the \<open>DELETE\<close> of the monitor the creation
  returned, the reply has status 204 and no body, and \<open>OnMonitorDeleted\<close> of that id has
  been triggered.
\<close>

theorem monitor_deletion_request:
  assumes "run rt s0 = (res, tr)" and "xs = exchanges tr"
  shows "((\<forall>i<length xs. http_method (fst (xs ! i)) = DELETE \<longrightarrow> i = 5) \<and>
         (5 < length xs \<longrightarrow>
            (\<exists>m h. http_method (fst (xs ! 3)) = POST \<and> url (fst (xs ! 3)) = BASE_URL @ ''/monitors'' \<and>
               status_of (snd (xs ! 3)) = Some 201 \<and> reply_field (snd (xs ! 3)) ''id'' = Some m \<and>
               fst (xs ! 5) = \<lparr>http_method = DELETE, url = BASE_URL @ ''/monitors/'' @ str_json rt m,
                 json_kw = None, headers_kw = Some h, verify_kw = False\<rparr>) \<and>
            (status_of (snd (xs ! 5)) = Some 204 \<longrightarrow>
               res = Inr () \<and> ''[TEST] Monitor deleted.'' \<in> set (printed tr)) \<and>
            (\<forall>resp. snd (xs ! 5) = Response resp \<and> status_code resp \<noteq> 204 \<longrightarrow>
               res = Inl (SystemExit 1) \<and> exit_code res = 1 \<and>
               last tr = Print (''[TEST] FAILED: Delete Monitor failed: '' @ resp_text resp)))) \<and>
         (\<forall>a s q i. authorized s q \<and> http_method q = DELETE \<and> url q = BASE_URL @ ''/monitors/'' @ i \<and>
             map_of (monitors s) i \<noteq> None \<longrightarrow>
             (\<exists>r s'. api_send a s q = (Response r, s') \<and> status_code r = 204 \<and> resp_json r = None \<and>
                triggered s' = triggered s @ [OnMonitorDeleted i])) \<and>
         (\<forall>a f g. (\<forall>s. f (JStr s) = s) \<longrightarrow>
             (\<exists>w. main (api_rt a f g) \<lparr>server = api_init, trace = []\<rparr> = (Inr (), w) \<and>
                reply_field (snd (exchanges (trace w) ! 3)) ''id'' = Some (JStr (id_of a 3)) \<and>
                http_method (fst (exchanges (trace w) ! 5)) = DELETE \<and>
                url (fst (exchanges (trace w) ! 5)) = BASE_URL @ ''/monitors/'' @ id_of a 3 \<and>
                json_kw (fst (exchanges (trace w) ! 5)) = None \<and>
                status_of (snd (exchanges (trace w) ! 5)) = Some 204 \<and>
                reply_field (snd (exchanges (trace w) ! 5)) ''id'' = None \<and>
                OnMonitorDeleted (id_of a 3) \<in> set (triggered (server w))))"
proof -
  have script: "(\<forall>i<length xs. http_method (fst (xs ! i)) = DELETE \<longrightarrow> i = 5) \<and>
         (5 < length xs \<longrightarrow>
            (\<exists>m h. http_method (fst (xs ! 3)) = POST \<and> url (fst (xs ! 3)) = BASE_URL @ ''/monitors'' \<and>
               status_of (snd (xs ! 3)) = Some 201 \<and> reply_field (snd (xs ! 3)) ''id'' = Some m \<and>
               fst (xs ! 5) = \<lparr>http_method = DELETE, url = BASE_URL @ ''/monitors/'' @ str_json rt m,
                 json_kw = None, headers_kw = Some h, verify_kw = False\<rparr>) \<and>
            (status_of (snd (xs ! 5)) = Some 204 \<longrightarrow>
               res = Inr () \<and> ''[TEST] Monitor deleted.'' \<in> set (printed tr)) \<and>
            (\<forall>resp. snd (xs ! 5) = Response resp \<and> status_code resp \<noteq> 204 \<longrightarrow>
               res = Inl (SystemExit 1) \<and> exit_code res = 1 \<and>
               last tr = Print (''[TEST] FAILED: Delete Monitor failed: '' @ resp_text resp)))"
    by (rule monitor_deletion_script[OF assms])
  have endpoint: "\<forall>a s q i. authorized s q \<and> http_method q = DELETE \<and> url q = BASE_URL @ ''/monitors/'' @ i \<and>
             map_of (monitors s) i \<noteq> None \<longrightarrow>
             (\<exists>r s'. api_send a s q = (Response r, s') \<and> status_code r = 204 \<and> resp_json r = None \<and>
                triggered s' = triggered s @ [OnMonitorDeleted i])"
  proof (intro allI impI; (elim conjE)?)
    fix a :: api and s :: api_state and q :: request and i
    assume h: "authorized s q" "http_method q = DELETE" "url q = BASE_URL @ ''/monitors/'' @ i"
      "map_of (monitors s) i \<noteq> None"
    show "\<exists>r s'. api_send a s q = (Response r, s') \<and> status_code r = 204 \<and> resp_json r = None \<and>
            triggered s' = triggered s @ [OnMonitorDeleted i]"
      by (rule api_delete_endpoint[OF h])
  qed
  have against_api: "\<forall>a f g. (\<forall>s. f (JStr s) = s) \<longrightarrow>
             (\<exists>w. main (api_rt a f g) \<lparr>server = api_init, trace = []\<rparr> = (Inr (), w) \<and>
                reply_field (snd (exchanges (trace w) ! 3)) ''id'' = Some (JStr (id_of a 3)) \<and>
                http_method (fst (exchanges (trace w) ! 5)) = DELETE \<and>
                url (fst (exchanges (trace w) ! 5)) = BASE_URL @ ''/monitors/'' @ id_of a 3 \<and>
                json_kw (fst (exchanges (trace w) ! 5)) = None \<and>
                status_of (snd (exchanges (trace w) ! 5)) = Some 204 \<and>
                reply_field (snd (exchanges (trace w) ! 5)) ''id'' = None \<and>
                OnMonitorDeleted (id_of a 3) \<in> set (triggered (server w)))"
  proof (intro allI impI)
    fix a :: api and f g
    assume "\<forall>s. f (JStr s) = s"
    then have "\<And>s. f (JStr s) = s" by blast
    from api_run_facts[OF this, of a g]
    show "\<exists>w. main (api_rt a f g) \<lparr>server = api_init, trace = []\<rparr> = (Inr (), w) \<and>
                reply_field (snd (exchanges (trace w) ! 3)) ''id'' = Some (JStr (id_of a 3)) \<and>
                http_method (fst (exchanges (trace w) ! 5)) = DELETE \<and>
                url (fst (exchanges (trace w) ! 5)) = BASE_URL @ ''/monitors/'' @ id_of a 3 \<and>
                json_kw (fst (exchanges (trace w) ! 5)) = None \<and>
                status_of (snd (exchanges (trace w) ! 5)) = Some 204 \<and>
                reply_field (snd (exchanges (trace w) ! 5)) ''id'' = None \<and>
                OnMonitorDeleted (id_of a 3) \<in> set (triggered (server w))"
      by clarsimp
  qed
  show ?thesis by (rule conjI[OF script conjI[OF endpoint against_api]])
qed

theorem monitor_deletion_request_witness:
  "run (demo_rt None) 0 = (Inr (), demo_trace) \<and>
   status_of (snd (exchanges demo_trace ! 5)) = Some 204 \<and>
   resp_json (demo_resp 5) = None \<and>
   ''[TEST] Monitor deleted.'' \<in> set (printed demo_trace) \<and>
   run (demo_rt (Some 5)) 0 = (Inl (SystemExit 1), demo_trace_del_500) \<and>
   snd (exchanges demo_trace_del_500 ! 5) = Response demo_error \<and>
   last demo_trace_del_500 =
     Print (''[TEST] FAILED: Delete Monitor failed: '' @ resp_text demo_error) \<and>
   (\<exists>r s'. api_send demo_api demo_state (del_request (demo_rt None) demo_headers (JStr ''mon-1'')) = (Response r, s') \<and> status_code r = 204 \<and>
      resp_json r = None \<and> triggered s' = triggered demo_state @ [OnMonitorDeleted ''mon-1'']) \<and>
   (\<exists>w. main (api_rt demo_api demo_str (\<lambda>e. ''error'')) \<lparr>server = api_init, trace = []\<rparr> =
        (Inr (), w) \<and>
      status_of (snd (exchanges (trace w) ! 5)) = Some 204 \<and>
      OnMonitorDeleted ''mon-1'' \<in> set (triggered (server w)))"
proof -
  have ok: "5 < length (exchanges demo_trace)" "status_of (snd (exchanges demo_trace ! 5)) = Some 204"
      "resp_json (demo_resp 5) = None"
    by (simp_all add: demo_exchanges demo_status eval_nat_numeral)
  from monitor_deletion_request[THEN conjunct1, OF demo_run_ok refl] ok
  have a: "''[TEST] Monitor deleted.'' \<in> set (printed demo_trace)" by blast
  have bad: "5 < length (exchanges demo_trace_del_500)"
      "snd (exchanges demo_trace_del_500 ! 5) = Response demo_error" "status_code demo_error \<noteq> 204"
    by (simp_all add: demo_exchanges_del_500 demo_status)
  from monitor_deletion_request[THEN conjunct1, OF demo_run_del_500 refl] bad
  have b: "last demo_trace_del_500 =
     Print (''[TEST] FAILED: Delete Monitor failed: '' @ resp_text demo_error)"
    by blast
  have script: "run (demo_rt None) 0 = (Inr (), demo_trace) \<and>
   status_of (snd (exchanges demo_trace ! 5)) = Some 204 \<and>
   resp_json (demo_resp 5) = None \<and>
   ''[TEST] Monitor deleted.'' \<in> set (printed demo_trace) \<and>
   run (demo_rt (Some 5)) 0 = (Inl (SystemExit 1), demo_trace_del_500) \<and>
   snd (exchanges demo_trace_del_500 ! 5) = Response demo_error \<and>
   last demo_trace_del_500 =
     Print (''[TEST] FAILED: Delete Monitor failed: '' @ resp_text demo_error)"
    using a b ok bad demo_run_ok demo_run_del_500 by blast
  have "authorized demo_state (del_request (demo_rt None) demo_headers (JStr ''mon-1'')) \<and> http_method (del_request (demo_rt None) demo_headers (JStr ''mon-1'')) = DELETE \<and>
      url (del_request (demo_rt None) demo_headers (JStr ''mon-1'')) = BASE_URL @ ''/monitors/'' @ ''mon-1'' \<and> map_of (monitors demo_state) ''mon-1'' \<noteq> None"
    by (simp add: authorized_def demo_state_def demo_headers_def demo_rt_def request_simps payload_shapes api_init_def mon_payload_valid)
  from monitor_deletion_request[OF demo_run_ok refl, THEN conjunct2, THEN conjunct1, rule_format, OF this, where a = demo_api]
  have endpoint: "\<exists>r s'. api_send demo_api demo_state (del_request (demo_rt None) demo_headers (JStr ''mon-1'')) = (Response r, s') \<and> status_code r = 204 \<and>
      resp_json r = None \<and> triggered s' = triggered demo_state @ [OnMonitorDeleted ''mon-1'']"
    by blast
  from monitor_deletion_request[OF demo_run_ok refl, THEN conjunct2, THEN conjunct2, rule_format, OF demo_str.simps(1),
      of demo_api "\<lambda>e. ''error''"]
  have against_api: "\<exists>w. main (api_rt demo_api demo_str (\<lambda>e. ''error'')) \<lparr>server = api_init, trace = []\<rparr> =
        (Inr (), w) \<and>
      status_of (snd (exchanges (trace w) ! 5)) = Some 204 \<and>
      OnMonitorDeleted ''mon-1'' \<in> set (triggered (server w))"
    by (clarsimp simp add: demo_api_def)
  from script endpoint against_api show ?thesis by blast
qed

text \<open>
  Claim C5. The network calls and the waits of a run are an initial part of: four
  \<open>POST\<close>, \<open>time.sleep(2)\<close>, the \<open>PUT\<close>, \<open>time.sleep(2)\<close>, the \<open>DELETE\<close>,
  \<open>time.sleep(2)\<close>. So every wait is a sleep of 2 seconds, there is no call but the six
  requests, and each of the first two sleeps comes before the next request. The first sleep
  happens exactly when the monitor creation succeeded, the second exactly when the
  credential update succeeded, the third exactly when the monitor deletion succeeded. A
  wait is the call \<open>time.sleep(2)\<close>; the time that really passes is outside the model.
\<close>

theorem fixed_sleeps_after_mutations:
  assumes "run rt s0 = (res, tr)" and "xs = exchanges tr"
  shows "actions tr = take (length (actions tr))
           [Call POST, Call POST, Call POST, Call POST, Wait 2, Call PUT, Wait 2, Call DELETE, Wait 2] \<and>
         (4 < length (actions tr) \<longleftrightarrow>
            3 < length xs \<and> status_of (snd (xs ! 3)) = Some 201 \<and> reply_field (snd (xs ! 3)) ''id'' \<noteq> None) \<and>
         (6 < length (actions tr) \<longleftrightarrow> 4 < length xs \<and> status_of (snd (xs ! 4)) = Some 200) \<and>
         (8 < length (actions tr) \<longleftrightarrow> 5 < length xs \<and> status_of (snd (xs ! 5)) = Some 204) \<and>
         (res = Inr () \<longleftrightarrow> length (actions tr) = 9)"
  using assms(1) unfolding assms(2)
  by (cases rule: run_cases)
     (simp_all add: obs actions_append actions_seg)

theorem fixed_sleeps_after_mutations_witness:
  "run (demo_rt None) 0 = (Inr (), demo_trace) \<and>
   actions demo_trace =
     [Call POST, Call POST, Call POST, Call POST, Wait 2, Call PUT, Wait 2, Call DELETE, Wait 2]"
proof -
  from fixed_sleeps_after_mutations[OF demo_run_ok refl] have "length (actions demo_trace) = 9"
    and "actions demo_trace = take (length (actions demo_trace))
           [Call POST, Call POST, Call POST, Call POST, Wait 2, Call PUT, Wait 2, Call DELETE, Wait 2]"
    by blast+
  then have "actions demo_trace =
     [Call POST, Call POST, Call POST, Call POST, Wait 2, Call PUT, Wait 2, Call DELETE, Wait 2]"
    by simp
  with demo_run_ok show ?thesis by simp
qed

text \<open>
  Claim C6. When a run reaches the monitor creation, the third request is the discovery
  creation and the fourth the monitor creation, the monitor's \<open>discovery_profile_id\<close> is
  the \<open>id\<close> that the discovery's response returned, and the monitor's own
  \<open>credential_profile_id\<close> equals the \<open>credential_profile_id\<close> of that discovery.
\<close>

theorem monitor_and_discovery_share_credential:
  assumes "run rt s0 = (res, tr)" and "xs = exchanges tr"
  shows "3 < length xs \<longrightarrow>
           url (fst (xs ! 2)) = BASE_URL @ ''/discoveries'' \<and>
           url (fst (xs ! 3)) = BASE_URL @ ''/monitors'' \<and>
           payload_field (fst (xs ! 3)) ''discovery_profile_id'' = reply_field (snd (xs ! 2)) ''id'' \<and>
           payload_field (fst (xs ! 3)) ''discovery_profile_id'' \<noteq> None \<and>
           payload_field (fst (xs ! 3)) ''credential_profile_id'' =
             payload_field (fst (xs ! 2)) ''credential_profile_id'' \<and>
           payload_field (fst (xs ! 3)) ''credential_profile_id'' \<noteq> None"
  using assms(1) unfolding assms(2)
  by (cases rule: run_cases) (simp_all add: obs credential_ref discovery_ref)

theorem monitor_and_discovery_share_credential_witness:
  "run (demo_rt None) 0 = (Inr (), demo_trace) \<and> 3 < length (exchanges demo_trace) \<and>
   payload_field (fst (exchanges demo_trace ! 2)) ''credential_profile_id'' = Some (JStr ''cred-1'') \<and>
   payload_field (fst (exchanges demo_trace ! 3)) ''credential_profile_id'' = Some (JStr ''cred-1'')"
proof -
  have len: "3 < length (exchanges demo_trace)"
    and pf: "payload_field (fst (exchanges demo_trace ! 2)) ''credential_profile_id'' = Some (JStr ''cred-1'')"
    by (simp_all add: demo_exchanges credential_ref)
  from monitor_and_discovery_share_credential[OF demo_run_ok refl] len
  have "payload_field (fst (exchanges demo_trace ! 3)) ''credential_profile_id'' =
          payload_field (fst (exchanges demo_trace ! 2)) ''credential_profile_id''"
    by blast
  with len pf demo_run_ok show ?thesis by simp
qed

text \<open>
  Claim C7. The first request of a run is the login and has no \<open>headers\<close> argument. When a
  later request is issued, the login response had status 200 and a \<open>token\<close> field, and the
  headers of that request are exactly the one header \<open>Authorization\<close> with the value
  \<open>Bearer\<close>, a space, and \<open>str\<close> of that token.
\<close>

theorem bearer_token_on_later_requests:
  assumes "run rt s0 = (res, tr)" and "xs = exchanges tr"
  shows "xs \<noteq> [] \<and> url (fst (hd xs)) = BASE_URL @ ''/login'' \<and> headers_kw (fst (hd xs)) = None \<and>
         (\<forall>i<length xs. 0 < i \<longrightarrow>
            (\<exists>tok. status_of (snd (hd xs)) = Some 200 \<and>
               reply_field (snd (hd xs)) ''token'' = Some tok \<and>
               headers_kw (fst (xs ! i)) = Some [(''Authorization'', ''Bearer '' @ str_json rt tok)]))"
  using assms(1) unfolding assms(2)
  by (cases rule: run_cases) (simp_all add: obs auth_headers_def)

theorem bearer_token_on_later_requests_witness:
  "run (demo_rt None) 0 = (Inr (), demo_trace) \<and>
   reply_field (snd (hd (exchanges demo_trace))) ''token'' = Some (JStr ''t0k3n'') \<and>
   headers_kw (fst (hd (exchanges demo_trace))) = None \<and>
   headers_kw (fst (exchanges demo_trace ! 5)) = Some [(''Authorization'', ''Bearer t0k3n'')]"
proof -
  have len: "5 < length (exchanges demo_trace)" "(0::nat) < 5"
    and tk: "reply_field (snd (hd (exchanges demo_trace))) ''token'' = Some (JStr ''t0k3n'')"
    by (simp_all add: demo_exchanges demo_obs)
  from bearer_token_on_later_requests[OF demo_run_ok refl] len
  obtain tok where "reply_field (snd (hd (exchanges demo_trace))) ''token'' = Some tok"
    and h: "headers_kw (fst (exchanges demo_trace ! 5)) =
              Some [(''Authorization'', ''Bearer '' @ str_json (demo_rt None) tok)]"
    and n: "headers_kw (fst (hd (exchanges demo_trace))) = None"
    by blast
  with tk have "tok = JStr ''t0k3n''" by simp
  with h have "headers_kw (fst (exchanges demo_trace ! 5)) = Some [(''Authorization'', ''Bearer t0k3n'')]"
    by (simp add: demo_rt_def)
  with tk n demo_run_ok show ?thesis by simp
qed

text \<open>What the script does around the login, against any server.\<close>

lemma login_script:
  assumes "run rt s0 = (res, tr)" and "xs = exchanges tr"
  shows "xs \<noteq> [] \<and>
         fst (hd xs) = \<lparr>http_method = POST, url = BASE_URL @ ''/login'',
           json_kw = Some (JDict [(''username'', JStr ''admin''), (''password'', JStr ''Admin@123'')]),
           headers_kw = None, verify_kw = False\<rparr> \<and>
         (status_of (snd (hd xs)) \<noteq> Some 200 \<or> reply_field (snd (hd xs)) ''token'' = None \<longrightarrow>
            res = Inl (SystemExit 1) \<and> exit_code res = 1 \<and> length xs = 1 \<and>
            (\<exists>msg. last tr = Print (''[TEST] FAILED: '' @ msg))) \<and>
         (status_of (snd (hd xs)) = Some 200 \<and> reply_field (snd (hd xs)) ''token'' \<noteq> None \<longrightarrow>
            ''[TEST] Login successful.'' \<in> set (printed tr) \<and> 1 < length xs)"
  using assms(1) unfolding assms(2)
  by (cases rule: run_cases)
     (simp_all add: obs_append exchanges_seg printed_seg ok_defs login_request_def login_payload_def)

text \<open>
  Claim C8. Three parts. The script, against any server: the first request of a run is
  \<open>POST /login\<close> with the body \<open>{username, password}\<close>, no headers and
  \<open>verify=False\<close>; if the reply is not a response with status 200, or reading the
  \<open>token\<close> of its body raises, the script prints a failure line and exits with code 1
  without another request; if the response has status 200 and a \<open>token\<close>, the script
  prints \<open>Login successful.\<close> and issues the next request. The API: in any state,
  \<open>POST /login\<close> with a body that has the fields \<open>username\<close> and \<open>password\<close> is
  answered 200 with a body that has a \<open>token\<close>, and the body the script sends has these
  fields. The script against the API, from the empty store: the reply to the login has
  status 200 and a \<open>token\<close>, and the run issues all six requests and ends normally.
\<close>

theorem login_request_and_abort:
  assumes "run rt s0 = (res, tr)" and "xs = exchanges tr"
  shows "(xs \<noteq> [] \<and>
         fst (hd xs) = \<lparr>http_method = POST, url = BASE_URL @ ''/login'',
           json_kw = Some (JDict [(''username'', JStr ''admin''), (''password'', JStr ''Admin@123'')]),
           headers_kw = None, verify_kw = False\<rparr> \<and>
         (status_of (snd (hd xs)) \<noteq> Some 200 \<or> reply_field (snd (hd xs)) ''token'' = None \<longrightarrow>
            res = Inl (SystemExit 1) \<and> exit_code res = 1 \<and> length xs = 1 \<and>
            (\<exists>msg. last tr = Print (''[TEST] FAILED: '' @ msg))) \<and>
         (status_of (snd (hd xs)) = Some 200 \<and> reply_field (snd (hd xs)) ''token'' \<noteq> None \<longrightarrow>
            ''[TEST] Login successful.'' \<in> set (printed tr) \<and> 1 < length xs)) \<and>
         ((\<forall>a s q j. http_method q = POST \<and> url q = BASE_URL @ ''/login'' \<and> json_kw q = Some j \<and>
             has_fields j [''username'', ''password''] \<longrightarrow>
             (\<exists>r s'. api_send a s q = (Response r, s') \<and> status_code r = 200 \<and>
                reply_field (Response r) ''token'' = Some (JStr (token_of a (counter s))))) \<and>
          has_fields login_payload [''username'', ''password'']) \<and>
         (\<forall>a f g. (\<forall>s. f (JStr s) = s) \<longrightarrow>
             (\<exists>w. main (api_rt a f g) \<lparr>server = api_init, trace = []\<rparr> = (Inr (), w) \<and>
                fst (exchanges (trace w) ! 0) = login_request \<and>
                status_of (snd (exchanges (trace w) ! 0)) = Some 200 \<and>
                reply_field (snd (exchanges (trace w) ! 0)) ''token'' = Some (JStr (token_of a 0)) \<and>
                length (exchanges (trace w)) = 6))"
proof -
  have script: "xs \<noteq> [] \<and>
         fst (hd xs) = \<lparr>http_method = POST, url = BASE_URL @ ''/login'',
           json_kw = Some (JDict [(''username'', JStr ''admin''), (''password'', JStr ''Admin@123'')]),
           headers_kw = None, verify_kw = False\<rparr> \<and>
         (status_of (snd (hd xs)) \<noteq> Some 200 \<or> reply_field (snd (hd xs)) ''token'' = None \<longrightarrow>
            res = Inl (SystemExit 1) \<and> exit_code res = 1 \<and> length xs = 1 \<and>
            (\<exists>msg. last tr = Print (''[TEST] FAILED: '' @ msg))) \<and>
         (status_of (snd (hd xs)) = Some 200 \<and> reply_field (snd (hd xs)) ''token'' \<noteq> None \<longrightarrow>
            ''[TEST] Login successful.'' \<in> set (printed tr) \<and> 1 < length xs)"
    by (rule login_script[OF assms])
  have endpoint: "(\<forall>a s q j. http_method q = POST \<and> url q = BASE_URL @ ''/login'' \<and> json_kw q = Some j \<and>
             has_fields j [''username'', ''password''] \<longrightarrow>
             (\<exists>r s'. api_send a s q = (Response r, s') \<and> status_code r = 200 \<and>
                reply_field (Response r) ''token'' = Some (JStr (token_of a (counter s))))) \<and>
          has_fields login_payload [''username'', ''password'']"
  proof (intro conjI allI impI; (elim conjE)?)
    fix a :: api and s :: api_state and q :: request and j
    assume h: "http_method q = POST" "url q = BASE_URL @ ''/login''" "json_kw q = Some j"
      "has_fields j [''username'', ''password'']"
    show "\<exists>r s'. api_send a s q = (Response r, s') \<and> status_code r = 200 \<and>
            reply_field (Response r) ''token'' = Some (JStr (token_of a (counter s)))"
      by (rule api_login_endpoint[OF h])
  qed (rule payload_shapes)
  have against_api: "\<forall>a f g. (\<forall>s. f (JStr s) = s) \<longrightarrow>
             (\<exists>w. main (api_rt a f g) \<lparr>server = api_init, trace = []\<rparr> = (Inr (), w) \<and>
                fst (exchanges (trace w) ! 0) = login_request \<and>
                status_of (snd (exchanges (trace w) ! 0)) = Some 200 \<and>
                reply_field (snd (exchanges (trace w) ! 0)) ''token'' = Some (JStr (token_of a 0)) \<and>
                length (exchanges (trace w)) = 6)"
  proof (intro allI impI)
    fix a :: api and f g
    assume "\<forall>s. f (JStr s) = s"
    then have "\<And>s. f (JStr s) = s" by blast
    from api_run_facts[OF this, of a g]
    show "\<exists>w. main (api_rt a f g) \<lparr>server = api_init, trace = []\<rparr> = (Inr (), w) \<and>
                fst (exchanges (trace w) ! 0) = login_request \<and>
                status_of (snd (exchanges (trace w) ! 0)) = Some 200 \<and>
                reply_field (snd (exchanges (trace w) ! 0)) ''token'' = Some (JStr (token_of a 0)) \<and>
                length (exchanges (trace w)) = 6"
      by clarsimp
  qed
  show ?thesis by (rule conjI[OF script conjI[OF endpoint against_api]])
qed

theorem login_request_and_abort_witness:
  "run (demo_rt None) 0 = (Inr (), demo_trace) \<and>
   ''[TEST] Login successful.'' \<in> set (printed demo_trace) \<and>
   run (demo_rt (Some 0)) 0 = (Inl (SystemExit 1), demo_trace_login_500) \<and>
   status_of (snd (hd (exchanges demo_trace_login_500))) = Some 500 \<and>
   exit_code (Inl (SystemExit 1)) = 1 \<and> length (exchanges demo_trace_login_500) = 1 \<and>
   (\<exists>r s'. api_send demo_api api_init login_request = (Response r, s') \<and> status_code r = 200 \<and>
      reply_field (Response r) ''token'' = Some (JStr (token_of demo_api (counter api_init)))) \<and>
   (\<exists>w. main (api_rt demo_api demo_str (\<lambda>e. ''error'')) \<lparr>server = api_init, trace = []\<rparr> =
        (Inr (), w) \<and>
      status_of (snd (exchanges (trace w) ! 0)) = Some 200 \<and>
      reply_field (snd (exchanges (trace w) ! 0)) ''token'' = Some (JStr ''t0k3n''))"
proof -
  have ok: "status_of (snd (hd (exchanges demo_trace))) = Some 200"
      "reply_field (snd (hd (exchanges demo_trace))) ''token'' \<noteq> None"
    by (simp_all add: demo_exchanges demo_obs)
  from login_request_and_abort[THEN conjunct1, OF demo_run_ok refl] ok
  have a: "''[TEST] Login successful.'' \<in> set (printed demo_trace)" by blast
  have bad: "status_of (snd (hd (exchanges demo_trace_login_500))) = Some 500"
    by (simp add: demo_exchanges_login_500 demo_status)
  then have "status_of (snd (hd (exchanges demo_trace_login_500))) \<noteq> Some 200" by simp
  with login_request_and_abort[THEN conjunct1, OF demo_run_login_500 refl]
  have b: "exit_code (Inl (SystemExit 1)) = 1 \<and> length (exchanges demo_trace_login_500) = 1"
    by blast
  have script: "run (demo_rt None) 0 = (Inr (), demo_trace) \<and>
   ''[TEST] Login successful.'' \<in> set (printed demo_trace) \<and>
   run (demo_rt (Some 0)) 0 = (Inl (SystemExit 1), demo_trace_login_500) \<and>
   status_of (snd (hd (exchanges demo_trace_login_500))) = Some 500 \<and>
   exit_code (Inl (SystemExit 1)) = 1 \<and> length (exchanges demo_trace_login_500) = 1"
    using a b bad demo_run_ok demo_run_login_500 by blast
  have "http_method login_request = POST \<and> url login_request = BASE_URL @ ''/login'' \<and> json_kw login_request = Some login_payload \<and>
      has_fields login_payload [''username'', ''password'']"
    by (simp add: authorized_def demo_state_def demo_headers_def demo_rt_def request_simps payload_shapes api_init_def mon_payload_valid)
  from login_request_and_abort[OF demo_run_ok refl, THEN conjunct2, THEN conjunct1, THEN conjunct1, rule_format, OF this, where a = demo_api]
  have endpoint: "\<exists>r s'. api_send demo_api api_init login_request = (Response r, s') \<and> status_code r = 200 \<and>
      reply_field (Response r) ''token'' = Some (JStr (token_of demo_api (counter api_init)))"
    by blast
  from login_request_and_abort[OF demo_run_ok refl, THEN conjunct2, THEN conjunct2, rule_format, OF demo_str.simps(1),
      of demo_api "\<lambda>e. ''error''"]
  have against_api: "\<exists>w. main (api_rt demo_api demo_str (\<lambda>e. ''error'')) \<lparr>server = api_init, trace = []\<rparr> =
        (Inr (), w) \<and>
      status_of (snd (exchanges (trace w) ! 0)) = Some 200 \<and>
      reply_field (snd (exchanges (trace w) ! 0)) ''token'' = Some (JStr ''t0k3n'')"
    by (clarsimp simp add: demo_api_def)
  from script endpoint against_api show ?thesis by blast
qed

text \<open>
  Claim C9. A run ends normally exactly when the statuses of the responses it received are
  200, 201, 201, 201, 200, 204 in this order, and it prints
  \<open>All steps completed successfully.\<close> exactly then; a run that ends normally exits with
  code 0 and that line is the last thing it does. A run issues at most six requests. When
  the response to a request has another status than the one expected at its position, this
  request is the last of the run, the next and last event is the printing of a failure
  line, and the script exits with code 1.
\<close>

theorem fail_fast_all_or_nothing:
  assumes "run rt s0 = (res, tr)" and "xs = exchanges tr"
  shows "(res = Inr () \<longleftrightarrow> statuses tr = expected_statuses) \<and>
         (''[TEST] All steps completed successfully.'' \<in> set (printed tr) \<longleftrightarrow>
            statuses tr = expected_statuses) \<and>
         (res = Inr () \<longrightarrow> exit_code res = 0 \<and>
            last tr = Print ''[TEST] All steps completed successfully.'') \<and>
         length xs \<le> 6 \<and>
         (\<forall>i<length xs. \<forall>resp. snd (xs ! i) = Response resp \<and> status_code resp \<noteq> expected_statuses ! i \<longrightarrow>
            Suc i = length xs \<and> res = Inl (SystemExit 1) \<and> exit_code res = 1 \<and>
            (\<exists>msg. last tr = Print (''[TEST] FAILED: '' @ msg)) \<and>
            last (butlast tr) = Http (fst (xs ! i)) (Response resp))"
  using assms(1) unfolding assms(2)
  by (cases rule: run_cases)
     (simp_all add: obs statuses_append statuses_seg printed_append printed_seg expected_statuses_def
        last_seg_del seg_nonempty butlast_append)

theorem fail_fast_all_or_nothing_witness:
  "run (demo_rt None) 0 = (Inr (), demo_trace) \<and> statuses demo_trace = expected_statuses \<and>
   ''[TEST] All steps completed successfully.'' \<in> set (printed demo_trace) \<and>
   run (demo_rt (Some 1)) 0 = (Inl (SystemExit 1), demo_trace_cred_500) \<and>
   snd (exchanges demo_trace_cred_500 ! 1) = Response demo_error \<and>
   status_code demo_error \<noteq> expected_statuses ! 1 \<and>
   length (exchanges demo_trace_cred_500) = 2 \<and> exit_code (Inl (SystemExit 1)) = 1"
proof -
  from fail_fast_all_or_nothing[OF demo_run_ok refl]
  have a: "statuses demo_trace = expected_statuses"
    "''[TEST] All steps completed successfully.'' \<in> set (printed demo_trace)"
    by blast+
  have bad: "1 < length (exchanges demo_trace_cred_500)"
      "snd (exchanges demo_trace_cred_500 ! 1) = Response demo_error"
      "status_code demo_error \<noteq> expected_statuses ! 1"
    by (simp_all add: demo_exchanges_cred_500 demo_status expected_statuses_def)
  from fail_fast_all_or_nothing[OF demo_run_cred_500 refl] bad
  have b: "Suc 1 = length (exchanges demo_trace_cred_500) \<and> exit_code (Inl (SystemExit 1)) = 1"
    by blast
  then have "length (exchanges demo_trace_cred_500) = 2" by simp
  with a b bad demo_run_ok demo_run_cred_500 show ?thesis by blast
qed

text \<open>
  Claim C10. The first thing a run does is to disable the \<open>InsecureRequestWarning\<close>, and
  every request of every run is sent with \<open>verify=False\<close>.
\<close>

theorem certificate_verification_disabled:
  assumes "run rt s0 = (res, tr)"
  shows "hd tr = Disable_warnings \<and> (\<forall>q r. Http q r \<in> set tr \<longrightarrow> \<not> verify_kw q)"
  using assms by (cases rule: run_cases) (auto simp add: seg_defs req_defs)

theorem certificate_verification_disabled_witness:
  "run (demo_rt None) 0 = (Inr (), demo_trace) \<and>
   Http login_request (Response (demo_resp 0)) \<in> set demo_trace \<and>
   \<not> verify_kw login_request \<and> hd demo_trace = Disable_warnings"
proof -
  have m: "Http login_request (Response (demo_resp 0)) \<in> set demo_trace"
    by (simp add: demo_trace_def seg_login_def)
  from certificate_verification_disabled[OF demo_run_ok] m
  have "\<not> verify_kw login_request" and "hd demo_trace = Disable_warnings"
    by blast+
  with m demo_run_ok show ?thesis by blast
qed

end
